theory Spec2Isabelle
  imports Complex_Main "HOL-Library.AList"
begin

section \<open>Python values used by the orchestrator\<close>

text \<open>
  Python floats are modelled as real numbers, so rounding is not part of the model.
  A Python \<open>dict\<close> with string keys is an association list in insertion order;
  \<open>d.get(k, default)\<close> is \<open>dict_get d k default\<close>.
\<close>

type_synonym 'v dict = "(string \<times> 'v) list"

definition dict_get :: "'v dict \<Rightarrow> string \<Rightarrow> 'v \<Rightarrow> 'v" where
  "dict_get d k dflt = (case map_of d k of None \<Rightarrow> dflt | Some v \<Rightarrow> v)"

text \<open>\<open>sum(d.values())\<close>\<close>

definition dict_values_sum :: "real dict \<Rightarrow> real" where
  "dict_values_sum d = sum_list (map snd d)"

text \<open>
  Exceptions are values. Only subclasses of Python's \<open>Exception\<close> are modelled
  (\<open>KeyboardInterrupt\<close> and \<open>SystemExit\<close> are not failures of the program).
  The text of a message is kept up to the value formatted into it.
\<close>

datatype error =
    ValueError string
  | RuntimeError string
  | NameError string
  | TypeError
  | AttributeError
  | KeyError string
  | SubprocessError
  | TimeoutError
  | OSError

text \<open>Sequencing of steps that may raise: the first exception ends the computation.\<close>

definition and_then :: "error + 'a \<Rightarrow> ('a \<Rightarrow> error + 'b) \<Rightarrow> error + 'b" where
  "and_then m f = (case m of Inl e \<Rightarrow> Inl e | Inr v \<Rightarrow> f v)"

text \<open>\<open>try: body except Exception as e: handler\<close>\<close>

definition try_except :: "error + 'a \<Rightarrow> (error \<Rightarrow> error + 'a) \<Rightarrow> error + 'a" where
  "try_except body handler = (case body of Inl e \<Rightarrow> handler e | Inr v \<Rightarrow> Inr v)"

text \<open>\<open>d[k]\<close> raises \<open>KeyError\<close> on a missing key.\<close>

definition dict_item :: "'v dict \<Rightarrow> string \<Rightarrow> error + 'v" where
  "dict_item d k = (case map_of d k of None \<Rightarrow> Inl (KeyError k) | Some v \<Rightarrow> Inr v)"

section \<open>models.py\<close>

datatype ExecutionMode = EDGE_ONLY | CLOUD_ONLY | HYBRID | DEFERRED

text \<open>The \<open>value\<close> of each member of the enum, and the members in declaration order.\<close>

fun mode_value :: "ExecutionMode \<Rightarrow> string" where
  "mode_value EDGE_ONLY = ''edge_only''"
| "mode_value CLOUD_ONLY = ''cloud_only''"
| "mode_value HYBRID = ''hybrid''"
| "mode_value DEFERRED = ''deferred''"

definition ExecutionMode_members :: "ExecutionMode list" where
  "ExecutionMode_members = [EDGE_ONLY, CLOUD_ONLY, HYBRID, DEFERRED]"

text \<open>
  The dataclasses. The field \<open>additional_data\<close> of \<open>SystemContext\<close>, which no
  function reads, is left out.
\<close>

record SystemContext =
  battery :: real
  network :: real
  carbon :: real
  platform :: string
  timestamp :: real

record Decision =
  score :: real
  confidence :: real
  battery :: real
  network :: real
  carbon :: real
  timestamp :: real
  recommended_mode :: ExecutionMode
  explanation :: string
  tradeoffs :: "real dict"

record OrchestratorConfig =
  weights :: "real dict"
  threshold :: real
  hard_edge_battery :: real
  hard_cloud_battery :: real
  use_real_battery :: bool
  use_real_network :: bool
  use_real_carbon :: bool
  carbon_zone :: string
  log_level :: string
  log_file :: "string option"
  version :: string
  decision_history_size :: int

text \<open>The field defaults of the dataclass: \<open>OrchestratorConfig()\<close>.\<close>

definition default_weights :: "real dict" where
  "default_weights = [(''battery'', 0.4), (''network'', 0.3), (''carbon'', 0.3)]"

definition default_config :: OrchestratorConfig where
  "default_config =
     \<lparr> weights = default_weights,
       threshold = 0.5,
       hard_edge_battery = 0.2,
       hard_cloud_battery = 0.8,
       use_real_battery = True,
       use_real_network = True,
       use_real_carbon = True,
       carbon_zone = ''IN'',
       log_level = ''INFO'',
       log_file = None,
       version = ''1.0.0'',
       decision_history_size = 1000 \<rparr>"

text \<open>
  \<open>OrchestratorConfig.validate\<close>: the three checks in the order of the source, each
  raising \<open>ValueError\<close>; falling off the end returns \<open>None\<close>.
\<close>

definition validate :: "OrchestratorConfig \<Rightarrow> error + unit" where
  "validate self =
     (if \<not> (0 \<le> threshold self \<and> threshold self \<le> 1)
      then Inl (ValueError ''Threshold must be between 0 and 1, got '')
      else
        let total_weight = dict_values_sum (weights self) in
        if \<bar>total_weight - 1.0\<bar> > 0.001
        then Inl (ValueError ''Weights must sum to 1.0, got '')
        else if weights self = []
        then Inl (ValueError ''Weights dictionary cannot be empty'')
        else Inr ())"

text \<open>
  \<open>dict.update(other)\<close>: every pair of \<open>other\<close> is stored in turn; a key already
  present keeps its place, a new key goes to the end.
\<close>

definition dict_update :: "'v dict \<Rightarrow> 'v dict \<Rightarrow> 'v dict" where
  "dict_update d other = foldl (\<lambda>acc (k, v). AList.update k v acc) d other"

text \<open>
  \<open>OrchestratorConfig.update_weights\<close>: the sum of the new weights is checked, then
  they are merged into the stored ones. The updated configuration is returned.
\<close>

definition update_weights :: "OrchestratorConfig \<Rightarrow> real dict \<Rightarrow> error + OrchestratorConfig" where
  "update_weights self new_weights =
     (let total = dict_values_sum new_weights in
      if \<bar>total - 1.0\<bar> > 0.001
      then Inl (ValueError ''New weights must sum to 1.0, got '')
      else Inr (self\<lparr>weights := dict_update (weights self) new_weights\<rparr>))"

section \<open>scoring.py\<close>

definition calculate_sustainability_score :: "real dict \<Rightarrow> real dict \<Rightarrow> real" where
  "calculate_sustainability_score monitor_values weights =
     (let battery = dict_get monitor_values ''battery'' 0.5;
          network = dict_get monitor_values ''network'' 0.5;
          carbon = dict_get monitor_values ''carbon'' 0.5;
          carbon_score = 1.0 - carbon;
          score = battery * dict_get weights ''battery'' 0.4
                + network * dict_get weights ''network'' 0.3
                + carbon_score * dict_get weights ''carbon'' 0.3
      in max 0.0 (min 1.0 score))"
  for monitor_values weights

text \<open>
  The value of \<open>confidence\<close> in \<open>calculate_confidence\<close> before the line
  \<open>confidence = confidence ** 0.5\<close>: the mean of the four sub-confidences.
\<close>

definition combined_confidence :: "real \<Rightarrow> SystemContext \<Rightarrow> real" where
  "combined_confidence score ctx =
     (let score_confidence = 1.0 - \<bar>score - 0.5\<bar> * 2;
          battery_confidence = 1.0 - \<bar>SystemContext.battery ctx - 0.5\<bar> * 2;
          network_confidence = SystemContext.network ctx;
          carbon_confidence = 1.0 - \<bar>SystemContext.carbon ctx - 0.5\<bar> * 2
      in (score_confidence + battery_confidence + network_confidence + carbon_confidence) / 4)"
  for score ctx

text \<open>
  \<open>x ** 0.5\<close> on a float: the square root of a non-negative \<open>x\<close>; for a negative
  \<open>x\<close> Python returns a complex number, and the comparison inside the following
  \<open>min(1.0, _)\<close> raises \<open>TypeError\<close>.
\<close>

definition calculate_confidence :: "real \<Rightarrow> SystemContext \<Rightarrow> error + real" where
  "calculate_confidence score ctx =
     (let confidence = combined_confidence score ctx in
      if confidence < 0 then Inl TypeError
      else
        let confidence = sqrt confidence
        in Inr (max 0.0 (min 1.0 confidence)))"
  for score ctx

definition analyze_tradeoffs :: "real \<Rightarrow> real \<Rightarrow> real \<Rightarrow> real dict" where
  "analyze_tradeoffs battery network carbon =
     [(''battery_vs_performance'', battery * 0.7 + (1 - battery) * 0.3),
      (''network_vs_latency'', network * 0.6 + (1 - network) * 0.4),
      (''carbon_vs_speed'', (1 - carbon) * 0.8 + carbon * 0.2),
      (''overall_tradeoff'', (battery + network + (1 - carbon)) / 3)]"
  for battery network carbon

section \<open>monitors: the readings\<close>

text \<open>
  The monitors exchange dictionaries of untyped values (\<open>Dict[str, Any]\<close>). The values
  that occur are floats, ints, booleans, strings, \<open>None\<close> and nested dictionaries.
\<close>

datatype pyval =
    PFloat real
  | PInt int
  | PBool bool
  | PStr string
  | PNone
  | PDict "(string \<times> pyval) list"

text \<open>
  \<open>float(v)\<close>: numbers convert, a string is parsed (\<open>ValueError\<close> when it is not
  a float literal; the parser is a parameter), anything else raises \<open>TypeError\<close>.
\<close>

definition py_float :: "(string \<Rightarrow> real option) \<Rightarrow> pyval \<Rightarrow> error + real" where
  "py_float parse_float v =
     (case v of
        PFloat r \<Rightarrow> Inr r
      | PInt i \<Rightarrow> Inr (real_of_int i)
      | PBool b \<Rightarrow> Inr (if b then 1 else 0)
      | PStr s \<Rightarrow>
          (case parse_float s of
             Some r \<Rightarrow> Inr r
           | None \<Rightarrow> Inl (ValueError ''could not convert string to float''))
      | PNone \<Rightarrow> Inl TypeError
      | PDict d \<Rightarrow> Inl TypeError)"

text \<open>
  A value compared with a float by \<open>min\<close>/\<open>max\<close>: numbers compare by value, anything
  else raises \<open>TypeError\<close>.
\<close>

definition py_number :: "pyval \<Rightarrow> error + real" where
  "py_number v =
     (case v of
        PFloat r \<Rightarrow> Inr r
      | PInt i \<Rightarrow> Inr (real_of_int i)
      | PBool b \<Rightarrow> Inr (if b then 1 else 0)
      | PStr s \<Rightarrow> Inl TypeError
      | PNone \<Rightarrow> Inl TypeError
      | PDict d \<Rightarrow> Inl TypeError)"

text \<open>
  A value formatted with a float format (\<open>{v:.1f}\<close> in an f-string): numbers format,
  a string raises \<open>ValueError\<close>, \<open>None\<close> and a dictionary raise \<open>TypeError\<close>.
\<close>

definition py_format_f :: "pyval \<Rightarrow> error + unit" where
  "py_format_f v =
     (case v of
        PFloat r \<Rightarrow> Inr ()
      | PInt i \<Rightarrow> Inr ()
      | PBool b \<Rightarrow> Inr ()
      | PStr s \<Rightarrow> Inl (ValueError ''Unknown format code'')
      | PNone \<Rightarrow> Inl TypeError
      | PDict d \<Rightarrow> Inl TypeError)"

text \<open>\<open>round(x, ndigits)\<close> on the real value: to the nearest, ties to even.\<close>

definition py_round_int :: "real \<Rightarrow> int" where
  "py_round_int x =
     (let f = \<lfloor>x\<rfloor>; d = x - real_of_int f
      in if d < 1/2 then f else if d > 1/2 then f + 1 else if even f then f else f + 1)"

definition py_round :: "real \<Rightarrow> nat \<Rightarrow> real" where
  "py_round x ndigits = real_of_int (py_round_int (x * 10 ^ ndigits)) / 10 ^ ndigits"

text \<open>\<open>str.lower\<close> on ASCII letters.\<close>

definition lower_char :: "char \<Rightarrow> char" where
  "lower_char c =
     (let n = (of_char c :: nat) in if 65 \<le> n \<and> n \<le> 90 then char_of (n + 32) else c)"

definition py_lower :: "string \<Rightarrow> string" where
  "py_lower s = map lower_char s"

subsection \<open>battery\_monitor.py: \<open>BatteryMonitor.get_info\<close>\<close>

text \<open>
  \<open>raw\<close> is the outcome of \<open>self._get_raw_battery_info()\<close>, the method each variant
  overrides; \<open>now\<close> is \<open>time.time()\<close>.
\<close>

definition BatteryMonitor_get_fallback_info :: "real \<Rightarrow> pyval dict" where
  "BatteryMonitor_get_fallback_info now =
     [(''percentage'', PFloat 85.0),
      (''is_charging'', PBool True),
      (''status'', PStr ''fallback''),
      (''source'', PStr ''fallback''),
      (''timestamp'', PFloat now),
      (''note'', PStr ''Using fallback battery data'')]"

definition BatteryMonitor_get_info_try ::
  "(string \<Rightarrow> real option) \<Rightarrow> real \<Rightarrow> error + pyval dict \<Rightarrow> error + pyval dict" where
  "BatteryMonitor_get_info_try parse_float now raw =
     and_then raw (\<lambda>raw_info.
       let info =
         [(''percentage'', dict_get raw_info ''percentage'' (PFloat 0.0)),
          (''is_charging'', dict_get raw_info ''is_charging'' (PBool False)),
          (''status'', dict_get raw_info ''status'' (PStr ''unknown'')),
          (''source'', dict_get raw_info ''source'' (PStr ''unknown'')),
          (''timestamp'', PFloat now),
          (''raw_data'', PDict raw_info)]
       in and_then (dict_item info ''percentage'') (\<lambda>v.
          and_then (py_float parse_float v) (\<lambda>p.
            Inr (AList.update ''percentage'' (PFloat (max 0.0 (min 100.0 p))) info))))"

definition BatteryMonitor_get_info ::
  "(string \<Rightarrow> real option) \<Rightarrow> real \<Rightarrow> error + pyval dict \<Rightarrow> error + pyval dict" where
  "BatteryMonitor_get_info parse_float now raw =
     try_except (BatteryMonitor_get_info_try parse_float now raw)
       (\<lambda>e. Inr (BatteryMonitor_get_fallback_info now))"

subsection \<open>network\_monitor.py: \<open>NetworkMonitor.get_info\<close>\<close>

definition NetworkMonitor_get_fallback_info :: "real \<Rightarrow> pyval dict" where
  "NetworkMonitor_get_fallback_info now =
     [(''speed_mbps'', PFloat 10.0),
      (''latency_ms'', PFloat 100.0),
      (''quality'', PFloat 0.5),
      (''connected'', PBool True),
      (''source'', PStr ''fallback''),
      (''timestamp'', PFloat now),
      (''note'', PStr ''Using fallback network data'')]"

text \<open>
  The clamped quality is stored with the value of \<open>max(0.0, min(1.0, q))\<close>. The
  f-string of the debug line is evaluated whether or not the logger prints it, so
  its two \<open>.1f\<close>/\<open>.0f\<close> formats can raise.
\<close>

definition NetworkMonitor_get_info_try :: "real \<Rightarrow> error + pyval dict \<Rightarrow> error + pyval dict" where
  "NetworkMonitor_get_info_try now raw =
     and_then raw (\<lambda>raw_info.
       let info =
         [(''speed_mbps'', dict_get raw_info ''speed_mbps'' (PFloat 0.0)),
          (''latency_ms'', dict_get raw_info ''latency_ms'' (PFloat 0.0)),
          (''quality'', dict_get raw_info ''quality'' (PFloat 0.0)),
          (''connected'', dict_get raw_info ''connected'' (PBool False)),
          (''source'', dict_get raw_info ''source'' (PStr ''unknown'')),
          (''timestamp'', PFloat now),
          (''raw_data'', PDict raw_info)]
       in and_then (dict_item info ''quality'') (\<lambda>v.
          and_then (py_number v) (\<lambda>q.
            let info = AList.update ''quality'' (PFloat (max 0.0 (min 1.0 q))) info
            in and_then (and_then (dict_item info ''speed_mbps'') py_format_f) (\<lambda>u1.
               and_then (and_then (dict_item info ''latency_ms'') py_format_f) (\<lambda>u2.
               and_then (and_then (dict_item info ''quality'') py_format_f) (\<lambda>u3.
                 Inr info))))))"

definition NetworkMonitor_get_info :: "real \<Rightarrow> error + pyval dict \<Rightarrow> error + pyval dict" where
  "NetworkMonitor_get_info now raw =
     try_except (NetworkMonitor_get_info_try now raw)
       (\<lambda>e. Inr (NetworkMonitor_get_fallback_info now))"

definition calculate_quality :: "real \<Rightarrow> real \<Rightarrow> real" where
  "calculate_quality speed_mbps latency_ms =
     (let speed_score = min 1.0 (speed_mbps / 200.0);
          latency_score = max 0.0 (1.0 - (latency_ms / 500.0));
          quality = (0.7 * speed_score) + (0.3 * latency_score)
      in max 0.0 (min 1.0 quality))"

subsection \<open>carbon\_monitor.py: \<open>CarbonMonitor.get_info\<close>\<close>

definition CarbonMonitor_get_fallback_info :: "real \<Rightarrow> string \<Rightarrow> pyval dict" where
  "CarbonMonitor_get_fallback_info now zone =
     [(''intensity'', PFloat 400.0),
      (''is_green'', PBool False),
      (''zone'', PStr zone),
      (''source'', PStr ''fallback''),
      (''timestamp'', PFloat now),
      (''note'', PStr ''Using fallback carbon data'')]"

definition CarbonMonitor_get_info_try ::
  "real \<Rightarrow> string \<Rightarrow> error + pyval dict \<Rightarrow> error + pyval dict" where
  "CarbonMonitor_get_info_try now zone raw =
     and_then raw (\<lambda>raw_info.
       Inr [(''intensity'', dict_get raw_info ''intensity'' (PFloat 0.0)),
            (''is_green'', dict_get raw_info ''is_green'' (PBool False)),
            (''zone'', dict_get raw_info ''zone'' (PStr zone)),
            (''source'', dict_get raw_info ''source'' (PStr ''unknown'')),
            (''timestamp'', PFloat now),
            (''raw_data'', PDict raw_info)])"

definition CarbonMonitor_get_info ::
  "real \<Rightarrow> string \<Rightarrow> error + pyval dict \<Rightarrow> error + pyval dict" where
  "CarbonMonitor_get_info now zone raw =
     try_except (CarbonMonitor_get_info_try now zone raw)
       (\<lambda>e. Inr (CarbonMonitor_get_fallback_info now zone))"

subsection \<open>network\_monitor.py: \<open>PingMonitor\<close>\<close>

text \<open>
  What the monitors and the factory read from outside the program: the platform name,
  whether the \<open>speedtest\<close> package can be imported, the environment variable
  \<open>ELECTRICITY_MAPS_API_KEY\<close>, whether one of the Linux battery paths exists, the
  outcome of running a command (its standard output, or the exception raised), and
  \<open>random.uniform\<close>. The regular expression engine and the parser of float literals
  are parameters as well.
\<close>

datatype ping_pattern = WindowsAverage | UnixRtt

record environment =
  platform_system :: string
  speedtest_importable :: bool
  environ_api_key :: "string option"
  battery_path_exists :: bool
  subprocess_run :: "string list \<Rightarrow> error + string"
  re_search :: "ping_pattern \<Rightarrow> string \<Rightarrow> string option"
  parse_float :: "string \<Rightarrow> real option"
  random_uniform :: "real \<Rightarrow> real \<Rightarrow> real"

text \<open>
  The names bound in the module \<open>network_monitor\<close>: its imports (lines 6 to 15),
  \<open>logger\<close> and its four classes. The module has no \<open>import re\<close>.
\<close>

definition network_monitor_globals :: "string list" where
  "network_monitor_globals =
     [''subprocess'', ''socket'', ''time'', ''logging'', ''platform'',
      ''Dict'', ''Any'', ''Optional'', ''Tuple'', ''ABC'', ''abstractmethod'', ''random'',
      ''BaseMonitor'', ''logger'',
      ''NetworkMonitor'', ''SpeedTestMonitor'', ''PingMonitor'', ''SimulatedNetworkMonitor'']"

text \<open>
  Reading a global name inside a function: a name the module does not bind (and that is
  no builtin, as \<open>re\<close> is not) raises \<open>NameError\<close>.
\<close>

definition load_global :: "string list \<Rightarrow> string \<Rightarrow> error + unit" where
  "load_global globals name =
     (if name \<in> set globals then Inr () else Inl (NameError name))"

text \<open>
  The exceptions that the clause
  \<open>except (subprocess.SubprocessError, TimeoutError, ValueError)\<close> of
  \<open>_ping_host\<close> catches.
\<close>

definition ping_host_catches :: "error \<Rightarrow> bool" where
  "ping_host_catches e =
     (case e of
        SubprocessError \<Rightarrow> True
      | TimeoutError \<Rightarrow> True
      | ValueError msg \<Rightarrow> True
      | _ \<Rightarrow> False)"

text \<open>
  \<open>PingMonitor._ping_host\<close>. \<open>subprocess.run\<close> raises \<open>TimeoutExpired\<close> (a
  \<open>SubprocessError\<close>) or \<open>OSError\<close>, or returns the output. The parsing step first
  reads the global \<open>re\<close>. The \<open>except\<close> clause logs and re-raises what it catches,
  and what it does not catch propagates: either way the exception leaves the method.
\<close>

definition ping_host :: "string list \<Rightarrow> environment \<Rightarrow> string \<Rightarrow> error + real" where
  "ping_host globals env host =
     (let system = py_lower (platform_system env);
          cmd = (if system = ''windows''
                 then [''ping'', ''-n'', ''4'', ''-w'', ''1000'', host]
                 else [''ping'', ''-c'', ''4'', ''-W'', ''1'', host])
      in try_except
           (and_then (subprocess_run env cmd) (\<lambda>output.
            and_then (load_global globals ''re'') (\<lambda>u.
              let match = (if system = ''windows''
                           then re_search env WindowsAverage output
                           else re_search env UnixRtt output)
              in case match of
                   Some group1 \<Rightarrow> py_float (parse_float env) (PStr group1)
                 | None \<Rightarrow> Inl (RuntimeError ''Could not parse ping output''))))
           (\<lambda>e. if ping_host_catches e then Inl e else Inl e))"

text \<open>
  \<open>PingMonitor._get_raw_network_info\<close>: the loop over the hosts. An exception of
  \<open>_ping_host\<close> or a latency that is not positive goes on to the next host; after
  the last host the method raises \<open>RuntimeError\<close>.
\<close>

definition ping_reading :: "environment \<Rightarrow> string \<Rightarrow> real \<Rightarrow> pyval dict" where
  "ping_reading env host latency =
     (let estimated_speed =
            (if latency < 50 then 50 + random_uniform env 0 50
             else if latency < 100 then 20 + random_uniform env 0 30
             else if latency < 200 then 5 + random_uniform env 0 15
             else 1 + random_uniform env 0 4);
          quality = calculate_quality estimated_speed latency
      in [(''speed_mbps'', PFloat (py_round estimated_speed 1)),
          (''latency_ms'', PFloat (py_round latency 1)),
          (''quality'', PFloat (py_round quality 3)),
          (''connected'', PBool True),
          (''source'', PStr (''ping_'' @ host)),
          (''ping_host'', PStr host),
          (''note'', PStr ''Speed estimated from latency'')])"

fun PingMonitor_get_raw_network_info ::
  "string list \<Rightarrow> environment \<Rightarrow> string list \<Rightarrow> error + pyval dict" where
  "PingMonitor_get_raw_network_info globals env [] =
     Inl (RuntimeError ''All ping attempts failed'')"
| "PingMonitor_get_raw_network_info globals env (host # hosts) =
     (case ping_host globals env host of
        Inl e \<Rightarrow> PingMonitor_get_raw_network_info globals env hosts
      | Inr latency \<Rightarrow>
          if latency > 0 then Inr (ping_reading env host latency)
          else PingMonitor_get_raw_network_info globals env hosts)"

definition ping_hosts :: "string list" where
  "ping_hosts = [''8.8.8.8'', ''1.1.1.1'', ''208.67.222.222'']"

definition PingMonitor_get_info :: "environment \<Rightarrow> real \<Rightarrow> error + pyval dict" where
  "PingMonitor_get_info env now =
     NetworkMonitor_get_info now
       (PingMonitor_get_raw_network_info network_monitor_globals env ping_hosts)"

section \<open>monitors: the classes and factory.py\<close>

text \<open>
  The monitor classes of the repository, and \<open>OtherClass names\<close> for a class from
  elsewhere (a test double) whose instances have the attributes \<open>names\<close>.
\<close>

datatype monitor_class =
    MacOSBatteryMonitor
  | LinuxBatteryMonitor
  | WindowsBatteryMonitor
  | UniversalBatteryMonitor
  | SimulatedBatteryMonitor
  | SpeedTestMonitor
  | PingMonitor
  | SimulatedNetworkMonitor
  | ElectricityMapsMonitor
  | SimulatedCarbonMonitor
  | OtherClass "string list"

text \<open>
  The attributes of an instance, by class: the instance attributes set in
  \<open>__init__\<close> and the methods defined in the class and its bases.
\<close>

definition BaseMonitor_attrs :: "string list" where
  "BaseMonitor_attrs =
     [''name'', ''last_update_time'', ''cache_ttl'', ''cache'',
      ''__init__'', ''is_available'', ''get_info'', ''get_cached_info'', ''refresh'',
      ''set_cache_ttl'', ''__str__'', ''__repr__'']"

definition BatteryMonitor_attrs :: "string list" where
  "BatteryMonitor_attrs =
     BaseMonitor_attrs @ [''_get_raw_battery_info'', ''_get_fallback_info'']"

definition NetworkMonitor_attrs :: "string list" where
  "NetworkMonitor_attrs =
     BaseMonitor_attrs @ [''_get_raw_network_info'', ''_get_fallback_info'', ''_calculate_quality'']"

definition CarbonMonitor_attrs :: "string list" where
  "CarbonMonitor_attrs =
     BaseMonitor_attrs @ [''_get_raw_carbon_info'', ''_get_fallback_info'', ''_is_green_grid'']"

fun class_attrs :: "monitor_class \<Rightarrow> string list" where
  "class_attrs MacOSBatteryMonitor = BatteryMonitor_attrs"
| "class_attrs LinuxBatteryMonitor =
     BatteryMonitor_attrs @ [''_read_from_sysfs'', ''_read_from_proc_acpi'']"
| "class_attrs WindowsBatteryMonitor = BatteryMonitor_attrs"
| "class_attrs UniversalBatteryMonitor =
     BatteryMonitor_attrs @ [''platform_monitors'', ''current_monitor'', ''_initialize_monitors'']"
| "class_attrs SimulatedBatteryMonitor =
     BatteryMonitor_attrs
     @ [''percentage'', ''is_charging'', ''discharge_rate'', ''charge_rate'', ''last_update'']"
| "class_attrs SpeedTestMonitor =
     NetworkMonitor_attrs @ [''speedtest_available'', ''_check_speedtest_availability'']"
| "class_attrs PingMonitor = NetworkMonitor_attrs @ [''ping_hosts'', ''_ping_host'']"
| "class_attrs SimulatedNetworkMonitor =
     NetworkMonitor_attrs @ [''base_speed'', ''base_latency'', ''last_update'']"
| "class_attrs ElectricityMapsMonitor = CarbonMonitor_attrs @ [''api_key'', ''base_url'']"
| "class_attrs SimulatedCarbonMonitor =
     CarbonMonitor_attrs @ [''zone_intensities'', ''last_update'']"
| "class_attrs (OtherClass names) = names"

text \<open>
  A monitor object as \<open>make_decision\<close> sees it: its class, what calling one of its
  attributes with no argument gives when the result is used as a number, and what
  reading one of its attributes gives when the value is used as a number (a call, or
  a value, that is no number raises \<open>TypeError\<close> in the arithmetic of the score).
\<close>

record monitor =
  klass :: monitor_class
  call_attr :: "string \<Rightarrow> error + real"
  read_attr :: "string \<Rightarrow> error + real"

definition hasattr :: "monitor \<Rightarrow> string \<Rightarrow> bool" where
  "hasattr obj name = (name \<in> set (class_attrs (klass obj)))"

text \<open>
  \<open>is_available\<close> of the battery monitors. \<open>UniversalBatteryMonitor\<close> asks the
  monitors of its list \<open>platform_monitors\<close>, which ends with the simulated one. The
  last equation stands for classes that are no battery monitors; no caller reaches it.
\<close>

definition platform_monitors :: "environment \<Rightarrow> monitor_class list" where
  "platform_monitors env =
     (if platform_system env = ''Darwin'' then [MacOSBatteryMonitor]
      else if platform_system env = ''Linux'' then [LinuxBatteryMonitor]
      else if platform_system env = ''Windows'' then [WindowsBatteryMonitor]
      else [])
     @ [SimulatedBatteryMonitor]"

fun platform_is_available :: "environment \<Rightarrow> monitor_class \<Rightarrow> bool" where
  "platform_is_available env MacOSBatteryMonitor = (platform_system env = ''Darwin'')"
| "platform_is_available env LinuxBatteryMonitor =
     (if platform_system env \<noteq> ''Linux'' then False else battery_path_exists env)"
| "platform_is_available env WindowsBatteryMonitor = (platform_system env = ''Windows'')"
| "platform_is_available env SimulatedBatteryMonitor = True"
| "platform_is_available env other = False"

definition battery_is_available :: "environment \<Rightarrow> monitor_class \<Rightarrow> bool" where
  "battery_is_available env cls =
     (if cls = UniversalBatteryMonitor
      then list_ex (platform_is_available env) (platform_monitors env)
      else platform_is_available env cls)"

text \<open>\<open>SpeedTestMonitor.is_available\<close>: whether \<open>import speedtest\<close> succeeded.\<close>

definition SpeedTestMonitor_is_available :: "environment \<Rightarrow> bool" where
  "SpeedTestMonitor_is_available env = speedtest_importable env"

text \<open>Truth value of \<open>Optional[str]\<close>: \<open>None\<close> and the empty string are false.\<close>

definition truthy :: "string option \<Rightarrow> bool" where
  "truthy v = (case v of None \<Rightarrow> False | Some s \<Rightarrow> s \<noteq> [])"

definition create_battery_monitor :: "environment \<Rightarrow> bool \<Rightarrow> bool \<Rightarrow> monitor_class" where
  "create_battery_monitor env use_universal use_simulation =
     (if use_simulation then SimulatedBatteryMonitor
      else if use_universal then UniversalBatteryMonitor
      else
        let system = platform_system env in
        if system = ''Darwin'' then MacOSBatteryMonitor
        else if system = ''Linux'' then LinuxBatteryMonitor
        else if system = ''Windows'' then WindowsBatteryMonitor
        else SimulatedBatteryMonitor)"

definition create_network_monitor ::
  "environment \<Rightarrow> bool \<Rightarrow> bool \<Rightarrow> bool \<Rightarrow> monitor_class" where
  "create_network_monitor env use_speedtest fallback_to_ping use_simulation =
     (if use_simulation then SimulatedNetworkMonitor
      else if use_speedtest \<and> SpeedTestMonitor_is_available env then SpeedTestMonitor
      else if fallback_to_ping then PingMonitor
      else SimulatedNetworkMonitor)"

text \<open>
  \<open>ElectricityMapsMonitor(api_key)\<close> keeps \<open>api_key or os.getenv(...)\<close> and is
  available when that is not \<open>None\<close>.
\<close>

definition ElectricityMapsMonitor_is_available :: "environment \<Rightarrow> string option \<Rightarrow> bool" where
  "ElectricityMapsMonitor_is_available env api_key =
     ((if truthy api_key then api_key else environ_api_key env) \<noteq> None)"

definition create_carbon_monitor ::
  "environment \<Rightarrow> string option \<Rightarrow> bool \<Rightarrow> string \<Rightarrow> bool \<Rightarrow> error + monitor_class" where
  "create_carbon_monitor env api_key use_simulation_if_no_key zone use_simulation =
     (if use_simulation then Inr SimulatedCarbonMonitor
      else if truthy api_key \<and> ElectricityMapsMonitor_is_available env api_key
      then Inr ElectricityMapsMonitor
      else if use_simulation_if_no_key then Inr SimulatedCarbonMonitor
      else Inl (ValueError ''No API key provided and simulation disabled''))"

section \<open>decision\_engine.py\<close>

record orchestrator =
  config :: OrchestratorConfig
  platform_info :: "string dict"
  monitors :: "monitor dict"
  decision_history :: "Decision list"

text \<open>
  \<open>_initialize_monitors\<close>: the class of the monitor built for each signal. The
  factory's defaults are \<open>use_universal=True\<close>, \<open>use_simulation=False\<close> and
  \<open>zone="IN"\<close>.
\<close>

definition initialize_monitors ::
  "OrchestratorConfig \<Rightarrow> environment \<Rightarrow> error + monitor_class dict" where
  "initialize_monitors cfg env =
     (let battery_monitor =
            (if use_real_battery cfg
             then
               let m = create_battery_monitor env True False
               in if \<not> battery_is_available env m
                  then create_battery_monitor env True False
                  else m
             else create_battery_monitor env False False);
          network_monitor =
            (if use_real_network cfg
             then create_network_monitor env True True False
             else create_network_monitor env False False False);
          carbon_monitor =
            (if use_real_carbon cfg
             then
               let api_key = environ_api_key env
               in try_except (create_carbon_monitor env api_key True (carbon_zone cfg) False)
                    (\<lambda>e. create_carbon_monitor env None True ''IN'' False)
             else create_carbon_monitor env None True ''IN'' False)
      in and_then carbon_monitor (\<lambda>carbon_monitor.
           Inr [(''battery'', battery_monitor),
                (''network'', network_monitor),
                (''carbon'', carbon_monitor)]))"

text \<open>
  The three probes of \<open>make_decision\<close>: a missing monitor and a monitor with none of
  the three attributes both give the default 0.5. (A monitor object is true: no class
  defines \<open>__bool__\<close> or \<open>__len__\<close>.)
\<close>

definition battery_status_of :: "monitor option \<Rightarrow> error + real" where
  "battery_status_of battery_monitor =
     (case battery_monitor of
        None \<Rightarrow> Inr 0.5
      | Some m \<Rightarrow>
          if hasattr m ''get_level'' then call_attr m ''get_level''
          else if hasattr m ''read'' then call_attr m ''read''
          else if hasattr m ''battery_level'' then read_attr m ''battery_level''
          else Inr 0.5)"

definition network_status_of :: "monitor option \<Rightarrow> error + real" where
  "network_status_of network_monitor =
     (case network_monitor of
        None \<Rightarrow> Inr 0.5
      | Some m \<Rightarrow>
          if hasattr m ''get_speed'' then call_attr m ''get_speed''
          else if hasattr m ''read'' then call_attr m ''read''
          else if hasattr m ''network_quality'' then read_attr m ''network_quality''
          else Inr 0.5)"

definition carbon_status_of :: "monitor option \<Rightarrow> error + real" where
  "carbon_status_of carbon_monitor =
     (case carbon_monitor of
        None \<Rightarrow> Inr 0.5
      | Some m \<Rightarrow>
          if hasattr m ''get_carbon_intensity'' then call_attr m ''get_carbon_intensity''
          else if hasattr m ''read'' then call_attr m ''read''
          else if hasattr m ''carbon_intensity'' then read_attr m ''carbon_intensity''
          else Inr 0.5)"

text \<open>The rules that choose the execution mode and its explanation (lines 258 to 269).\<close>

definition determine_mode ::
  "OrchestratorConfig \<Rightarrow> real \<Rightarrow> real \<Rightarrow> real \<Rightarrow> ExecutionMode \<times> string" where
  "determine_mode cfg battery_status network_status score =
     (if battery_status < hard_edge_battery cfg
      then (CLOUD_ONLY, ''Battery too low for edge processing'')
      else if battery_status > hard_cloud_battery cfg \<and> network_status > 0.7
      then (EDGE_ONLY, ''High battery and good network for edge processing'')
      else if score > threshold cfg
      then (HYBRID, ''Good conditions for hybrid processing'')
      else (DEFERRED, ''Poor conditions, defer processing''))"
  for cfg battery_status network_status score

text \<open>
  The slice \<open>xs[-n:]\<close>: a negative start counts from the end and is clamped to the
  list; \<open>xs[-0:]\<close> is \<open>xs[0:]\<close>.
\<close>

definition slice_from :: "'a list \<Rightarrow> int \<Rightarrow> 'a list" where
  "slice_from xs start =
     (let len = int (length xs);
          i = (if start < 0 then max 0 (len + start) else min start len)
      in drop (nat i) xs)"

text \<open>The history step (lines 285 to 289).\<close>

definition save_to_history :: "OrchestratorConfig \<Rightarrow> Decision list \<Rightarrow> Decision \<Rightarrow> Decision list" where
  "save_to_history cfg history decision =
     (let history = history @ [decision]
      in if int (length history) > decision_history_size cfg
         then slice_from history (- decision_history_size cfg)
         else history)"

text \<open>
  \<open>make_decision\<close>: \<open>now\<close> is \<open>time.time()\<close>. The result is the decision and the
  orchestrator with the new history, or the exception that left the method.
\<close>

definition make_decision :: "real \<Rightarrow> orchestrator \<Rightarrow> error + (Decision \<times> orchestrator)" where
  "make_decision now self =
     and_then (battery_status_of (map_of (monitors self) ''battery'')) (\<lambda>battery_status.
     and_then (network_status_of (map_of (monitors self) ''network'')) (\<lambda>network_status.
     and_then (carbon_status_of (map_of (monitors self) ''carbon'')) (\<lambda>carbon_status.
       let monitor_values =
             [(''battery'', battery_status),
              (''network'', network_status),
              (''carbon'', carbon_status)];
           score = calculate_sustainability_score monitor_values (weights (config self));
           ctx = \<lparr> SystemContext.battery = battery_status,
                   network = network_status,
                   carbon = carbon_status,
                   platform = dict_get (platform_info self) ''system'' ''unknown'',
                   timestamp = now \<rparr>
       in and_then (calculate_confidence score ctx) (\<lambda>confidence.
            let tradeoffs = analyze_tradeoffs battery_status network_status carbon_status;
                (recommended_mode, explanation) =
                   determine_mode (config self) battery_status network_status score;
                decision = \<lparr> score = score,
                             confidence = confidence,
                             battery = battery_status,
                             network = network_status,
                             carbon = carbon_status,
                             timestamp = now,
                             recommended_mode = recommended_mode,
                             explanation = explanation,
                             tradeoffs = tradeoffs \<rparr>
            in Inr (decision,
                    self\<lparr>decision_history :=
                            save_to_history (config self) (decision_history self) decision\<rparr>)))))"

text \<open>
  The loop of \<open>run.py\<close> that calls \<open>make_decision\<close> once per iteration. Each
  iteration has its own clock reading and its own state of the monitors; the decisions
  are collected in the order they were made.
\<close>

fun make_decisions ::
  "(real \<times> monitor dict) list \<Rightarrow> orchestrator \<Rightarrow> error + (Decision list \<times> orchestrator)" where
  "make_decisions [] self = Inr ([], self)"
| "make_decisions ((now, ms) # rest) self =
     and_then (make_decision now (self\<lparr>monitors := ms\<rparr>)) (\<lambda>(decision, self).
     and_then (make_decisions rest self) (\<lambda>(decisions, self).
       Inr (decision # decisions, self)))"

text \<open>
  \<open>get_statistics\<close> returns a dictionary whose values are a count, a float or the
  dictionary of the counts by mode; an empty history gives the empty dictionary.
  \<open>min(scores)\<close> and \<open>max(scores)\<close> are taken over a list that is not empty: its
  first element folded with the others.
\<close>

datatype stat = Count nat | Number real | Distribution "nat dict"

definition get_statistics :: "orchestrator \<Rightarrow> stat dict" where
  "get_statistics self =
     (case decision_history self of
        [] \<Rightarrow> []
      | d # ds \<Rightarrow>
          let scores = map score (decision_history self);
              confidences = map confidence (decision_history self)
          in [(''total_decisions'', Count (length (decision_history self))),
              (''average_score'', Number (sum_list scores / real (length scores))),
              (''average_confidence'', Number (sum_list confidences / real (length confidences))),
              (''min_score'', Number (fold min (map score ds) (score d))),
              (''max_score'', Number (fold max (map score ds) (score d))),
              (''mode_distribution'',
                 Distribution
                   (map (\<lambda>mode. (mode_value mode,
                                  length (filter (\<lambda>d. recommended_mode d = mode)
                                            (decision_history self))))
                      ExecutionMode_members))])"

section \<open>Auxiliary notions and example values\<close>

text \<open>The classes defined in the repository, and the attribute names \<open>make_decision\<close> probes.\<close>

definition repository_class :: "monitor_class \<Rightarrow> bool" where
  "repository_class cls = (case cls of OtherClass names \<Rightarrow> False | _ \<Rightarrow> True)"

definition probe_names :: "string list" where
  "probe_names = [''get_level'', ''read'', ''battery_level'', ''get_speed'',
                  ''network_quality'', ''get_carbon_intensity'', ''carbon_intensity'']"

text \<open>
  A Linux machine without battery, without the \<open>speedtest\<close> package and without an
  API key, on which no command can be started.
\<close>

definition example_environment :: environment where
  "example_environment =
     \<lparr> platform_system = ''Linux'',
       speedtest_importable = False,
       environ_api_key = None,
       battery_path_exists = False,
       subprocess_run = (\<lambda>cmd. Inl OSError),
       re_search = (\<lambda>pattern text. None),
       parse_float = (\<lambda>text. None),
       random_uniform = (\<lambda>a b. a) \<rparr>"

text \<open>An instance of a class, and a test double with one method that returns \<open>v\<close>.\<close>

definition instance_of :: "monitor_class \<Rightarrow> monitor" where
  "instance_of cls =
     \<lparr> klass = cls,
       call_attr = (\<lambda>name. Inl AttributeError),
       read_attr = (\<lambda>name. Inl AttributeError) \<rparr>"

definition test_double :: "string \<Rightarrow> real \<Rightarrow> monitor" where
  "test_double method v =
     \<lparr> klass = OtherClass [method],
       call_attr = (\<lambda>name. if name = method then Inr v else Inl AttributeError),
       read_attr = (\<lambda>name. Inl AttributeError) \<rparr>"

definition example_orchestrator ::
  "OrchestratorConfig \<Rightarrow> monitor dict \<Rightarrow> Decision list \<Rightarrow> orchestrator" where
  "example_orchestrator cfg ms history =
     \<lparr> config = cfg,
       platform_info = [(''system'', ''Linux'')],
       monitors = ms,
       decision_history = history \<rparr>"

text \<open>A deferred decision whose three signals are \<open>v\<close> and whose confidence is \<open>cf\<close>.\<close>

definition example_decision :: "real \<Rightarrow> real \<Rightarrow> Decision" where
  "example_decision v cf =
     \<lparr> score = 0.5, confidence = cf, battery = v, network = v, carbon = v,
       timestamp = 0, recommended_mode = DEFERRED,
       explanation = ''Poor conditions, defer processing'',
       tradeoffs = analyze_tradeoffs v v v \<rparr>"

text \<open>The weights of the validation scenario whose sum is 1.1.\<close>

definition rejected_weights :: "real dict" where
  "rejected_weights = [(''battery'', 0.5), (''network'', 0.5), (''carbon'', 0.1)]"

section \<open>Properties of the scoring functions\<close>

lemma dict_get_nonneg:
  assumes "list_all (\<lambda>(k, v). 0 \<le> v) d" and "0 \<le> dflt"
  shows "0 \<le> dict_get d k (dflt::real)"
  using assms
  by (auto simp: dict_get_def list_all_iff split: option.splits dest!: map_of_SomeD)

lemma dict_get_update:
  "dict_get (AList.update k v d) k' dflt = (if k' = k then v else dict_get d k' dflt)"
  by (simp add: dict_get_def update_conv')

lemma score_unfold:
  "calculate_sustainability_score mv ws =
     max 0 (min 1 (dict_get mv ''battery'' 0.5 * dict_get ws ''battery'' 0.4
                 + dict_get mv ''network'' 0.5 * dict_get ws ''network'' 0.3
                 + (1 - dict_get mv ''carbon'' 0.5) * dict_get ws ''carbon'' 0.3))"
  by (simp add: calculate_sustainability_score_def Let_def)

lemma score_range:
  "0 \<le> calculate_sustainability_score mv ws \<and> calculate_sustainability_score mv ws \<le> 1"
  by (simp add: calculate_sustainability_score_def Let_def)

lemma clamp_mono: "x \<le> y \<Longrightarrow> max 0 (min 1 x) \<le> max (0::real) (min 1 y)"
  by (simp add: max_def min_def)

text \<open>
  Claim C3. For every dictionary of monitor values and every dictionary of weights,
  \<open>calculate_sustainability_score\<close> is the weighted sum
  battery * w\_battery + network * w\_network + (1 - carbon) * w\_carbon clamped to
  the interval from 0 to 1, where a missing value is 0.5 and a missing weight is 0.4
  for battery, 0.3 for network and 0.3 for carbon. For non-negative weights whose sum
  is within 0.001 of 1 and values between 0 and 1, the result lies between 0 and 1.
\<close>

theorem calculate_sustainability_score_spec:
  "calculate_sustainability_score mv ws =
     max 0 (min 1
       ( (case map_of mv ''battery'' of None \<Rightarrow> 0.5 | Some b \<Rightarrow> b)
           * (case map_of ws ''battery'' of None \<Rightarrow> 0.4 | Some w \<Rightarrow> w)
       + (case map_of mv ''network'' of None \<Rightarrow> 0.5 | Some n \<Rightarrow> n)
           * (case map_of ws ''network'' of None \<Rightarrow> 0.3 | Some w \<Rightarrow> w)
       + (1 - (case map_of mv ''carbon'' of None \<Rightarrow> 0.5 | Some c \<Rightarrow> c))
           * (case map_of ws ''carbon'' of None \<Rightarrow> 0.3 | Some w \<Rightarrow> w)))
   \<and> (list_all (\<lambda>(k, w). 0 \<le> w) ws \<and> \<bar>dict_values_sum ws - 1\<bar> \<le> 0.001
        \<and> list_all (\<lambda>(k, v). 0 \<le> v \<and> v \<le> 1) mv
      \<longrightarrow> 0 \<le> calculate_sustainability_score mv ws
          \<and> calculate_sustainability_score mv ws \<le> 1)"
  unfolding score_unfold dict_get_def by simp

theorem calculate_sustainability_score_spec_witness:
  "list_all (\<lambda>(k, w). 0 \<le> w) default_weights
   \<and> \<bar>dict_values_sum default_weights - 1\<bar> \<le> 0.001
   \<and> list_all (\<lambda>(k, v). 0 \<le> v \<and> v \<le> 1)
         [(''battery'', 0.9), (''network'', 0.8), (''carbon'', 0.1::real)]
   \<and> calculate_sustainability_score
         [(''battery'', 0.9), (''network'', 0.8), (''carbon'', 0.1)] default_weights = 0.87
   \<and> 0 \<le> calculate_sustainability_score
         [(''battery'', 0.9), (''network'', 0.8), (''carbon'', 0.1)] default_weights
   \<and> calculate_sustainability_score
         [(''battery'', 0.9), (''network'', 0.8), (''carbon'', 0.1)] default_weights \<le> 1"
proof -
  let ?mv = "[(''battery'', 0.9), (''network'', 0.8), (''carbon'', 0.1::real)]"
  have h: "list_all (\<lambda>(k, w). 0 \<le> w) default_weights"
    "\<bar>dict_values_sum default_weights - 1\<bar> \<le> 0.001"
    "list_all (\<lambda>(k, v). 0 \<le> v \<and> v \<le> 1) ?mv"
    by (simp_all add: default_weights_def dict_values_sum_def)
  have v: "calculate_sustainability_score ?mv default_weights = 0.87"
    using calculate_sustainability_score_spec [of ?mv default_weights]
    by (simp add: default_weights_def)
  from calculate_sustainability_score_spec [of ?mv default_weights] h
  have "0 \<le> calculate_sustainability_score ?mv default_weights
      \<and> calculate_sustainability_score ?mv default_weights \<le> 1"
    by blast
  with h v show ?thesis by blast
qed

text \<open>
  Claim C8. With non-negative weights, and the weights and the other two values held
  fixed, \<open>calculate_sustainability_score\<close> does not decrease when the battery value
  or the network value grows, and does not increase when the carbon value grows.
  (The bound holds for every such dictionary of weights and all values, so also for
  weights that sum to 1 and values between 0 and 1.)
\<close>

theorem calculate_sustainability_score_monotone:
  assumes "list_all (\<lambda>(k, w). 0 \<le> w) ws"
  shows "(b \<le> b' \<longrightarrow>
           calculate_sustainability_score (AList.update ''battery'' b mv) ws
         \<le> calculate_sustainability_score (AList.update ''battery'' b' mv) ws)
    \<and> (n \<le> n' \<longrightarrow>
           calculate_sustainability_score (AList.update ''network'' n mv) ws
         \<le> calculate_sustainability_score (AList.update ''network'' n' mv) ws)
    \<and> (c \<le> c' \<longrightarrow>
           calculate_sustainability_score (AList.update ''carbon'' c' mv) ws
         \<le> calculate_sustainability_score (AList.update ''carbon'' c mv) ws)"
proof -
  have wb: "0 \<le> dict_get ws ''battery'' 0.4"
    using assms by (intro dict_get_nonneg) auto
  have wn: "0 \<le> dict_get ws ''network'' 0.3"
    using assms by (intro dict_get_nonneg) auto
  have wc: "0 \<le> dict_get ws ''carbon'' 0.3"
    using assms by (intro dict_get_nonneg) auto
  have 1: "b \<le> b' \<longrightarrow>
           calculate_sustainability_score (AList.update ''battery'' b mv) ws
         \<le> calculate_sustainability_score (AList.update ''battery'' b' mv) ws"
    unfolding score_unfold using wb
    by (intro impI clamp_mono) (simp add: dict_get_update mult_right_mono)
  have 2: "n \<le> n' \<longrightarrow>
           calculate_sustainability_score (AList.update ''network'' n mv) ws
         \<le> calculate_sustainability_score (AList.update ''network'' n' mv) ws"
    unfolding score_unfold using wn
    by (intro impI clamp_mono) (simp add: dict_get_update mult_right_mono)
  have 3: "c \<le> c' \<longrightarrow>
           calculate_sustainability_score (AList.update ''carbon'' c' mv) ws
         \<le> calculate_sustainability_score (AList.update ''carbon'' c mv) ws"
    unfolding score_unfold using wc
    by (intro impI clamp_mono) (simp add: dict_get_update mult_right_mono)
  show ?thesis using 1 2 3 by blast
qed

theorem calculate_sustainability_score_monotone_witness:
  "list_all (\<lambda>(k, w). 0 \<le> w) default_weights
   \<and> calculate_sustainability_score
       (AList.update ''battery'' 0.2 [(''battery'', 0.5), (''network'', 0.5), (''carbon'', 0.5)])
       default_weights
     \<le> calculate_sustainability_score
       (AList.update ''battery'' 0.9 [(''battery'', 0.5), (''network'', 0.5), (''carbon'', 0.5)])
       default_weights
   \<and> calculate_sustainability_score
       (AList.update ''network'' 0.2 [(''battery'', 0.5), (''network'', 0.5), (''carbon'', 0.5)])
       default_weights
     \<le> calculate_sustainability_score
       (AList.update ''network'' 0.9 [(''battery'', 0.5), (''network'', 0.5), (''carbon'', 0.5)])
       default_weights
   \<and> calculate_sustainability_score
       (AList.update ''carbon'' 0.9 [(''battery'', 0.5), (''network'', 0.5), (''carbon'', 0.5)])
       default_weights
     \<le> calculate_sustainability_score
       (AList.update ''carbon'' 0.2 [(''battery'', 0.5), (''network'', 0.5), (''carbon'', 0.5)])
       default_weights"
proof -
  have h: "list_all (\<lambda>(k, w). 0 \<le> w) default_weights"
    by (simp add: default_weights_def)
  from calculate_sustainability_score_monotone
         [OF h, of "0.2" "0.9" "[(''battery'', 0.5), (''network'', 0.5), (''carbon'', 0.5)]"
            "0.2" "0.9" "0.2" "0.9"] h
  show ?thesis by simp
qed

subsection \<open>Confidence\<close>

lemma sub_confidence_range:
  "0 \<le> x \<Longrightarrow> x \<le> 1 \<Longrightarrow>
     0 \<le> 1 - \<bar>x - 1/2\<bar> * 2 \<and> 1 - \<bar>x - 1/2\<bar> * 2 \<le> (1::real)"
  by (cases "x \<le> 1/2") simp_all

lemma mean4_range:
  "0 \<le> a \<and> a \<le> 1 \<Longrightarrow> 0 \<le> b \<and> b \<le> 1 \<Longrightarrow> 0 \<le> n \<Longrightarrow> n \<le> 1 \<Longrightarrow> 0 \<le> d \<and> d \<le> 1
   \<Longrightarrow> 0 \<le> (a + b + n + d) / 4 \<and> (a + b + n + d) / 4 \<le> (1::real)"
  by simp

lemma combined_confidence_range:
  assumes "0 \<le> s" "s \<le> 1"
    "0 \<le> SystemContext.battery c" "SystemContext.battery c \<le> 1"
    "0 \<le> SystemContext.network c" "SystemContext.network c \<le> 1"
    "0 \<le> SystemContext.carbon c" "SystemContext.carbon c \<le> 1"
  shows "0 \<le> combined_confidence s c \<and> combined_confidence s c \<le> 1"
proof -
  note a = sub_confidence_range [OF assms(1,2)]
  note b = sub_confidence_range [OF assms(3,4)]
  note d = sub_confidence_range [OF assms(7,8)]
  have "combined_confidence s c =
     ((1 - \<bar>s - 1/2\<bar> * 2) + (1 - \<bar>SystemContext.battery c - 1/2\<bar> * 2)
       + SystemContext.network c + (1 - \<bar>SystemContext.carbon c - 1/2\<bar> * 2)) / 4"
    by (simp add: combined_confidence_def)
  then show ?thesis using mean4_range [OF a b assms(5,6) d] by (simp only:)
qed

text \<open>
  For a score and context fields between 0 and 1, \<open>calculate_confidence\<close> returns, and
  its value lies between 0 and 1.
\<close>

lemma calculate_confidence_range:
  assumes "0 \<le> s" "s \<le> 1"
    "0 \<le> SystemContext.battery c" "SystemContext.battery c \<le> 1"
    "0 \<le> SystemContext.network c" "SystemContext.network c \<le> 1"
    "0 \<le> SystemContext.carbon c" "SystemContext.carbon c \<le> 1"
  shows "\<exists>cf. calculate_confidence s c = Inr cf \<and> 0 \<le> cf \<and> cf \<le> 1"
proof -
  from combined_confidence_range [OF assms] have "0 \<le> combined_confidence s c" by simp
  then show ?thesis by (simp add: calculate_confidence_def Let_def)
qed

text \<open>
  Claim C4. At score 0.5, battery 0.5, network 0 and carbon 0.5 the mean of the four
  sub-confidences, before the square root is taken, is 3/4 in the code (the three
  sub-confidences of the form 1 - 2 * |x - 0.5| are 1 at the midpoint, the network
  one is 0), and \<open>calculate_confidence\<close> returns the square root of 3/4. The claim
  states the value 0 for the mean, which is what the comments of the source describe
  (a value at the midpoint carries the least confidence, an extreme one the most).
\<close>

theorem calculate_confidence_at_midpoint:
  "combined_confidence 0.5
     \<lparr>SystemContext.battery = 0.5, network = 0, carbon = 0.5, platform = p, timestamp = t\<rparr>
     = 3/4
   \<and> calculate_confidence 0.5
     \<lparr>SystemContext.battery = 0.5, network = 0, carbon = 0.5, platform = p, timestamp = t\<rparr>
     = Inr (sqrt (3/4))"
proof -
  have m: "combined_confidence 0.5
     \<lparr>SystemContext.battery = 0.5, network = 0, carbon = 0.5, platform = p, timestamp = t\<rparr>
     = 3/4"
    by (simp add: combined_confidence_def)
  have "sqrt (3/4) \<le> 1" by (subst real_sqrt_le_1_iff) simp
  moreover have "0 \<le> sqrt (3/4::real)" by simp
  ultimately have "calculate_confidence 0.5
     \<lparr>SystemContext.battery = 0.5, network = 0, carbon = 0.5, platform = p, timestamp = t\<rparr>
     = Inr (sqrt (3/4))"
    by (simp add: calculate_confidence_def combined_confidence_def
        del: real_sqrt_le_1_iff real_sqrt_ge_0_iff)
  with m show ?thesis by blast
qed

section \<open>Properties of the configuration\<close>

lemma map_of_dict_update:
  "distinct (map fst other) \<Longrightarrow> map_of (dict_update d other) = map_of d ++ map_of other"
  unfolding dict_update_def
proof (induction other arbitrary: d)
  case Nil
  then show ?case by simp
next
  case (Cons p other)
  obtain k v where p: "p = (k, v)" by (cases p)
  from Cons.prems have k: "map_of other k = None" and d: "distinct (map fst other)"
    by (simp_all add: p map_of_eq_None_iff)
  have "map_of (AList.update k v d) ++ map_of other = map_of d ++ map_of ((k, v) # other)"
  proof (rule ext)
    fix x
    show "(map_of (AList.update k v d) ++ map_of other) x
        = (map_of d ++ map_of ((k, v) # other)) x"
      using k by (cases "map_of other x") (auto simp: update_conv' map_add_def)
  qed
  then show ?case
    using Cons.IH [OF d, of "AList.update k v d"] by (simp only: p foldl_Cons prod.case)
qed

lemma distinct_dict_update:
  "distinct (map fst d) \<Longrightarrow> distinct (map fst (dict_update d other))"
  unfolding dict_update_def
  by (induction other arbitrary: d) (auto simp: distinct_update)

lemma sum_values_map_of:
  "distinct (map fst d) \<Longrightarrow>
     dict_values_sum d = (\<Sum>k \<in> set (map fst d). the (map_of d k))"
  unfolding dict_values_sum_def
proof (induction d)
  case Nil
  then show ?case by simp
next
  case (Cons p d)
  obtain k v where p: "p = (k, v)" by (cases p)
  from Cons.prems have k: "k \<notin> set (map fst d)" and d: "distinct (map fst d)"
    by (simp_all add: p)
  have "(\<Sum>x \<in> set (map fst d). the (map_of ((k, v) # d) x))
      = (\<Sum>x \<in> set (map fst d). the (map_of d x))"
    using k by (intro sum.cong) auto
  then show ?case using Cons.IH [OF d] k by (simp add: p)
qed

lemma sum_values_cong:
  assumes "distinct (map fst d)" "distinct (map fst e)" "map_of d = map_of e"
  shows "dict_values_sum d = dict_values_sum e"
proof -
  have "set (map fst d) = set (map fst e)"
    using assms(3) by (metis dom_map_of_conv_image_fst set_map)
  then show ?thesis
    using assms by (simp add: sum_values_map_of)
qed

text \<open>
  When the new weights name every stored key, the merged dictionary has the values of
  the new one, and so its sum.
\<close>

lemma dict_update_covering:
  assumes "distinct (map fst d)" "distinct (map fst other)"
    and "set (map fst d) \<subseteq> set (map fst other)"
  shows "dict_values_sum (dict_update d other) = dict_values_sum other"
proof (rule sum_values_cong)
  show "distinct (map fst (dict_update d other))"
    using assms(1) by (rule distinct_dict_update)
  show "distinct (map fst other)" by fact
  show "map_of (dict_update d other) = map_of other"
  proof (rule ext)
    fix k
    show "map_of (dict_update d other) k = map_of other k"
    proof (cases "map_of other k")
      case None
      then have "k \<notin> set (map fst other)" by (simp add: map_of_eq_None_iff)
      with assms(3) have "k \<notin> set (map fst d)" by blast
      then have "map_of d k = None" by (simp add: map_of_eq_None_iff)
      with None show ?thesis by (simp add: map_of_dict_update [OF assms(2)] map_add_def)
    next
      case (Some v)
      then show ?thesis by (simp add: map_of_dict_update [OF assms(2)] map_add_def)
    qed
  qed
qed

text \<open>
  Claim C5, as the code has it. \<open>validate\<close> raises \<open>ValueError\<close> for a threshold
  outside the interval from 0 to 1 and for weights whose sum differs from 1 by more
  than 0.001, and accepts exactly the configurations that pass these two checks: it
  does not look at \<open>hard_edge_battery\<close> or \<open>hard_cloud_battery\<close>. The weights 0.5,
  0.5, 0.1 are rejected and the weights 0.4, 0.3, 0.3 accepted. \<open>update_weights\<close>
  rejects new weights whose sum differs from 1 by more than 0.001; after a successful
  call whose new weights name every stored key, the stored weights sum to 1 within
  0.001.
\<close>

theorem config_validation:
  "(\<not> (0 \<le> threshold cfg \<and> threshold cfg \<le> 1) \<longrightarrow>
       validate cfg = Inl (ValueError ''Threshold must be between 0 and 1, got ''))
   \<and> (\<bar>dict_values_sum (weights cfg) - 1\<bar> > 0.001 \<longrightarrow>
         (\<exists>msg. validate cfg = Inl (ValueError msg)))
   \<and> (validate cfg = Inr () \<longleftrightarrow>
         0 \<le> threshold cfg \<and> threshold cfg \<le> 1
         \<and> \<bar>dict_values_sum (weights cfg) - 1\<bar> \<le> 0.001)
   \<and> (\<exists>msg. validate (cfg\<lparr>weights := rejected_weights\<rparr>) = Inl (ValueError msg))
   \<and> (0 \<le> threshold cfg \<and> threshold cfg \<le> 1 \<longrightarrow>
         validate (cfg\<lparr>weights := default_weights\<rparr>) = Inr ())
   \<and> (\<bar>dict_values_sum new_weights - 1\<bar> > 0.001 \<longrightarrow>
         update_weights cfg new_weights = Inl (ValueError ''New weights must sum to 1.0, got ''))
   \<and> (update_weights cfg new_weights = Inr cfg'
        \<and> distinct (map fst (weights cfg)) \<and> distinct (map fst new_weights)
        \<and> set (map fst (weights cfg)) \<subseteq> set (map fst new_weights)
        \<longrightarrow> \<bar>dict_values_sum (weights cfg') - 1\<bar> \<le> 0.001)"
proof -
  have empty: "weights cfg = [] \<Longrightarrow> \<bar>dict_values_sum (weights cfg) - 1\<bar> > 0.001"
    by (simp add: dict_values_sum_def)
  have v1: "\<not> (0 \<le> threshold cfg \<and> threshold cfg \<le> 1) \<longrightarrow>
       validate cfg = Inl (ValueError ''Threshold must be between 0 and 1, got '')"
    by (simp add: validate_def)
  have v2: "\<bar>dict_values_sum (weights cfg) - 1\<bar> > 0.001 \<longrightarrow>
      (\<exists>msg. validate cfg = Inl (ValueError msg))"
    by (simp add: validate_def Let_def)
  have v3: "validate cfg = Inr () \<longleftrightarrow>
         0 \<le> threshold cfg \<and> threshold cfg \<le> 1
         \<and> \<bar>dict_values_sum (weights cfg) - 1\<bar> \<le> 0.001"
    using empty by (auto simp: validate_def Let_def)
  have v4: "\<exists>msg. validate (cfg\<lparr>weights := rejected_weights\<rparr>) = Inl (ValueError msg)"
    by (simp add: validate_def Let_def rejected_weights_def dict_values_sum_def)
  have v5: "0 \<le> threshold cfg \<and> threshold cfg \<le> 1 \<longrightarrow>
         validate (cfg\<lparr>weights := default_weights\<rparr>) = Inr ()"
    by (simp add: validate_def Let_def default_weights_def dict_values_sum_def)
  have u1: "\<bar>dict_values_sum new_weights - 1\<bar> > 0.001 \<longrightarrow>
         update_weights cfg new_weights = Inl (ValueError ''New weights must sum to 1.0, got '')"
    by (simp add: update_weights_def Let_def)
  have u2: "update_weights cfg new_weights = Inr cfg'
        \<and> distinct (map fst (weights cfg)) \<and> distinct (map fst new_weights)
        \<and> set (map fst (weights cfg)) \<subseteq> set (map fst new_weights)
        \<longrightarrow> \<bar>dict_values_sum (weights cfg') - 1\<bar> \<le> 0.001"
  proof (intro impI, elim conjE)
    assume u: "update_weights cfg new_weights = Inr cfg'"
      and d: "distinct (map fst (weights cfg))" "distinct (map fst new_weights)"
      and s: "set (map fst (weights cfg)) \<subseteq> set (map fst new_weights)"
    from u have ok: "\<bar>dict_values_sum new_weights - 1\<bar> \<le> 0.001"
      and w: "weights cfg' = dict_update (weights cfg) new_weights"
      by (auto simp: update_weights_def Let_def split: if_splits)
    show "\<bar>dict_values_sum (weights cfg') - 1\<bar> \<le> 0.001"
      using ok by (simp only: w dict_update_covering [OF d s])
  qed
  show ?thesis using v1 v2 v3 v4 v5 u1 u2 by blast
qed

theorem config_validation_witness:
  "validate (default_config\<lparr>threshold := 2\<rparr>)
     = Inl (ValueError ''Threshold must be between 0 and 1, got '')
   \<and> validate (default_config\<lparr>weights := rejected_weights\<rparr>)
     = Inl (ValueError ''Weights must sum to 1.0, got '')
   \<and> validate default_config = Inr ()
   \<and> update_weights default_config rejected_weights
     = Inl (ValueError ''New weights must sum to 1.0, got '')
   \<and> update_weights default_config [(''carbon'', 0.5), (''battery'', 0.2), (''network'', 0.3)]
     = Inr (default_config\<lparr>weights := [(''battery'', 0.2), (''network'', 0.3), (''carbon'', 0.5)]\<rparr>)
   \<and> \<bar>dict_values_sum [(''battery'', 0.2), (''network'', 0.3), (''carbon'', 0.5)] - 1\<bar> \<le> 0.001"
  using config_validation [of "default_config\<lparr>threshold := 2\<rparr>" rejected_weights]
    config_validation [of "default_config\<lparr>weights := rejected_weights\<rparr>" rejected_weights]
    config_validation [of default_config
      "[(''carbon'', 0.5), (''battery'', 0.2), (''network'', 0.3)]"
      "default_config\<lparr>weights := [(''battery'', 0.2), (''network'', 0.3), (''carbon'', 0.5)]\<rparr>"]
  by (simp add: default_config_def default_weights_def rejected_weights_def dict_values_sum_def
      update_weights_def dict_update_def validate_def)

text \<open>
  The claim as stated fails twice: a configuration whose two battery bounds are 5 and
  -3 passes \<open>validate\<close>, and the update of the default weights by a dictionary that
  only holds battery = 1.0 succeeds and leaves stored weights whose sum is 1.6.
\<close>

theorem config_validation_counterexample:
  "validate (default_config\<lparr>hard_edge_battery := 5, hard_cloud_battery := -3\<rparr>) = Inr ()
   \<and> update_weights default_config [(''battery'', 1)]
      = Inr (default_config\<lparr>weights := [(''battery'', 1), (''network'', 0.3), (''carbon'', 0.3)]\<rparr>)
   \<and> dict_values_sum [(''battery'', 1), (''network'', 0.3), (''carbon'', 0.3)] = 1.6"
  by (simp add: validate_def update_weights_def default_config_def default_weights_def
      dict_values_sum_def dict_update_def)

section \<open>Properties of the monitors\<close>

lemma try_except_total: "\<exists>v. try_except body (\<lambda>e. Inr (h e)) = Inr v"
  by (cases body) (simp_all add: try_except_def)

text \<open>
  Claim C9. For the battery, network and carbon monitors, \<open>get_info\<close> always returns a
  reading and never raises, whatever the probe \<open>_get_raw_..._info\<close> of the variant
  returns or raises. When the body of the \<open>try\<close> fails (the probe raised, or a value
  of its result cannot be standardised), the result is the fallback reading: battery
  85.0 percent and charging; network 10.0 Mbps, 100 ms, quality 0.5 and connected;
  carbon intensity 400.0 and not green.
\<close>

theorem get_info_never_raises:
  "(\<exists>info. BatteryMonitor_get_info pf now raw = Inr info)
   \<and> (\<forall>e. BatteryMonitor_get_info_try pf now raw = Inl e \<longrightarrow>
          BatteryMonitor_get_info pf now raw = Inr (BatteryMonitor_get_fallback_info now))
   \<and> BatteryMonitor_get_info pf now (Inl e0) = Inr (BatteryMonitor_get_fallback_info now)
   \<and> map_of (BatteryMonitor_get_fallback_info now) ''percentage'' = Some (PFloat 85.0)
   \<and> map_of (BatteryMonitor_get_fallback_info now) ''is_charging'' = Some (PBool True)
   \<and> (\<exists>info. NetworkMonitor_get_info now rawn = Inr info)
   \<and> (\<forall>e. NetworkMonitor_get_info_try now rawn = Inl e \<longrightarrow>
          NetworkMonitor_get_info now rawn = Inr (NetworkMonitor_get_fallback_info now))
   \<and> NetworkMonitor_get_info now (Inl e0) = Inr (NetworkMonitor_get_fallback_info now)
   \<and> map_of (NetworkMonitor_get_fallback_info now) ''speed_mbps'' = Some (PFloat 10.0)
   \<and> map_of (NetworkMonitor_get_fallback_info now) ''latency_ms'' = Some (PFloat 100.0)
   \<and> map_of (NetworkMonitor_get_fallback_info now) ''quality'' = Some (PFloat 0.5)
   \<and> map_of (NetworkMonitor_get_fallback_info now) ''connected'' = Some (PBool True)
   \<and> (\<exists>info. CarbonMonitor_get_info now zone rawc = Inr info)
   \<and> (\<forall>e. CarbonMonitor_get_info_try now zone rawc = Inl e \<longrightarrow>
          CarbonMonitor_get_info now zone rawc = Inr (CarbonMonitor_get_fallback_info now zone))
   \<and> CarbonMonitor_get_info now zone (Inl e0) = Inr (CarbonMonitor_get_fallback_info now zone)
   \<and> map_of (CarbonMonitor_get_fallback_info now zone) ''intensity'' = Some (PFloat 400.0)
   \<and> map_of (CarbonMonitor_get_fallback_info now zone) ''is_green'' = Some (PBool False)"
proof -
  have b1: "\<exists>info. BatteryMonitor_get_info pf now raw = Inr info"
    unfolding BatteryMonitor_get_info_def by (rule try_except_total)
  have b2: "\<forall>e. BatteryMonitor_get_info_try pf now raw = Inl e \<longrightarrow>
          BatteryMonitor_get_info pf now raw = Inr (BatteryMonitor_get_fallback_info now)"
    unfolding BatteryMonitor_get_info_def by (simp add: try_except_def)
  have b3: "BatteryMonitor_get_info pf now (Inl e0) = Inr (BatteryMonitor_get_fallback_info now)"
    by (simp add: BatteryMonitor_get_info_def BatteryMonitor_get_info_try_def
        try_except_def and_then_def)
  have b4: "map_of (BatteryMonitor_get_fallback_info now) ''percentage'' = Some (PFloat 85.0)"
    "map_of (BatteryMonitor_get_fallback_info now) ''is_charging'' = Some (PBool True)"
    by (simp_all add: BatteryMonitor_get_fallback_info_def)
  have n1: "\<exists>info. NetworkMonitor_get_info now rawn = Inr info"
    unfolding NetworkMonitor_get_info_def by (rule try_except_total)
  have n2: "\<forall>e. NetworkMonitor_get_info_try now rawn = Inl e \<longrightarrow>
          NetworkMonitor_get_info now rawn = Inr (NetworkMonitor_get_fallback_info now)"
    unfolding NetworkMonitor_get_info_def by (simp add: try_except_def)
  have n3: "NetworkMonitor_get_info now (Inl e0) = Inr (NetworkMonitor_get_fallback_info now)"
    by (simp add: NetworkMonitor_get_info_def NetworkMonitor_get_info_try_def
        try_except_def and_then_def)
  have n4: "map_of (NetworkMonitor_get_fallback_info now) ''speed_mbps'' = Some (PFloat 10.0)"
    "map_of (NetworkMonitor_get_fallback_info now) ''latency_ms'' = Some (PFloat 100.0)"
    "map_of (NetworkMonitor_get_fallback_info now) ''quality'' = Some (PFloat 0.5)"
    "map_of (NetworkMonitor_get_fallback_info now) ''connected'' = Some (PBool True)"
    by (simp_all add: NetworkMonitor_get_fallback_info_def)
  have c1: "\<exists>info. CarbonMonitor_get_info now zone rawc = Inr info"
    unfolding CarbonMonitor_get_info_def by (rule try_except_total)
  have c2: "\<forall>e. CarbonMonitor_get_info_try now zone rawc = Inl e \<longrightarrow>
          CarbonMonitor_get_info now zone rawc = Inr (CarbonMonitor_get_fallback_info now zone)"
    unfolding CarbonMonitor_get_info_def by (simp add: try_except_def)
  have c3: "CarbonMonitor_get_info now zone (Inl e0)
      = Inr (CarbonMonitor_get_fallback_info now zone)"
    by (simp add: CarbonMonitor_get_info_def CarbonMonitor_get_info_try_def
        try_except_def and_then_def)
  have c4: "map_of (CarbonMonitor_get_fallback_info now zone) ''intensity'' = Some (PFloat 400.0)"
    "map_of (CarbonMonitor_get_fallback_info now zone) ''is_green'' = Some (PBool False)"
    by (simp_all add: CarbonMonitor_get_fallback_info_def)
  show ?thesis
    using b1 b2 b3 b4 n1 n2 n3 n4 c1 c2 c3 c4 by blast
qed

text \<open>
  Three failures inside the \<open>try\<close>: a battery percentage that is no number, a network
  speed that is \<open>None\<close>, and a carbon probe that raises.
\<close>

theorem get_info_never_raises_witness:
  "BatteryMonitor_get_info_try (\<lambda>s. None) 0 (Inr [(''percentage'', PStr ''n/a'')])
     = Inl (ValueError ''could not convert string to float'')
   \<and> BatteryMonitor_get_info (\<lambda>s. None) 0 (Inr [(''percentage'', PStr ''n/a'')])
     = Inr (BatteryMonitor_get_fallback_info 0)
   \<and> NetworkMonitor_get_info_try 0 (Inr [(''speed_mbps'', PNone)]) = Inl TypeError
   \<and> NetworkMonitor_get_info 0 (Inr [(''speed_mbps'', PNone)])
     = Inr (NetworkMonitor_get_fallback_info 0)
   \<and> CarbonMonitor_get_info_try 0 ''IN''
       (Inl (RuntimeError ''No Electricity Maps API key provided''))
     = Inl (RuntimeError ''No Electricity Maps API key provided'')
   \<and> CarbonMonitor_get_info 0 ''IN''
       (Inl (RuntimeError ''No Electricity Maps API key provided''))
     = Inr (CarbonMonitor_get_fallback_info 0 ''IN'')"
proof -
  have b: "BatteryMonitor_get_info_try (\<lambda>s. None) 0 (Inr [(''percentage'', PStr ''n/a'')])
     = Inl (ValueError ''could not convert string to float'')"
    by (simp add: BatteryMonitor_get_info_try_def and_then_def dict_get_def dict_item_def
        py_float_def)
  have n: "NetworkMonitor_get_info_try 0 (Inr [(''speed_mbps'', PNone)]) = Inl TypeError"
    by (simp add: NetworkMonitor_get_info_try_def and_then_def dict_get_def dict_item_def
        py_number_def py_format_f_def)
  have c: "CarbonMonitor_get_info_try 0 ''IN''
       (Inl (RuntimeError ''No Electricity Maps API key provided''))
     = Inl (RuntimeError ''No Electricity Maps API key provided'')"
    by (simp add: CarbonMonitor_get_info_try_def and_then_def)
  show ?thesis
    using b n c
      get_info_never_raises [of "\<lambda>s. None" 0 "Inr [(''percentage'', PStr ''n/a'')]" _
        "Inr [(''speed_mbps'', PNone)]" "''IN''"
        "Inl (RuntimeError ''No Electricity Maps API key provided'')"]
    by simp
qed

subsection \<open>The ping monitor\<close>

lemma re_not_bound: "''re'' \<notin> set network_monitor_globals"
  by (simp add: network_monitor_globals_def)

lemma load_re: "load_global network_monitor_globals ''re'' = Inl (NameError ''re'')"
  by (simp add: load_global_def re_not_bound)

lemma ping_host_raises: "\<exists>e. ping_host network_monitor_globals env host = Inl e"
  unfolding ping_host_def Let_def
  by (auto simp: try_except_def and_then_def load_re split: sum.splits)

lemma ping_host_NameError:
  "ping_host network_monitor_globals (env\<lparr>subprocess_run := \<lambda>cmd. Inr out\<rparr>) host
     = Inl (NameError ''re'')"
  unfolding ping_host_def Let_def
  by (simp add: try_except_def and_then_def load_re)

lemma ping_loop_raises:
  "PingMonitor_get_raw_network_info network_monitor_globals env hosts
     = Inl (RuntimeError ''All ping attempts failed'')"
proof (induction hosts)
  case Nil
  then show ?case by simp
next
  case (Cons host hosts)
  obtain e where "ping_host network_monitor_globals env host = Inl e"
    using ping_host_raises by blast
  then show ?case using Cons.IH by simp
qed

text \<open>
  Claim C10. The module \<open>network_monitor\<close> does not bind the name \<open>re\<close>. A call of
  \<open>_ping_host\<close> whose command returns its output raises \<open>NameError\<close>, which the
  \<open>except\<close> clause of the method does not catch, and every call of \<open>_ping_host\<close>
  raises. So \<open>PingMonitor._get_raw_network_info\<close> ends with
  \<open>RuntimeError\<close> after the last host, in every environment and for every list of
  hosts, and
  \<open>PingMonitor.get_info\<close> always returns the fallback reading (10.0 Mbps, 100 ms,
  quality 0.5).
\<close>

theorem ping_monitor_always_falls_back:
  "''re'' \<notin> set network_monitor_globals
   \<and> ping_host network_monitor_globals (env\<lparr>subprocess_run := \<lambda>cmd. Inr out\<rparr>) host
       = Inl (NameError ''re'')
   \<and> \<not> ping_host_catches (NameError ''re'')
   \<and> (\<exists>e. ping_host network_monitor_globals env host = Inl e)
   \<and> PingMonitor_get_raw_network_info network_monitor_globals env hosts
       = Inl (RuntimeError ''All ping attempts failed'')
   \<and> PingMonitor_get_info env now = Inr (NetworkMonitor_get_fallback_info now)
   \<and> map_of (NetworkMonitor_get_fallback_info now) ''speed_mbps'' = Some (PFloat 10.0)
   \<and> map_of (NetworkMonitor_get_fallback_info now) ''latency_ms'' = Some (PFloat 100.0)
   \<and> map_of (NetworkMonitor_get_fallback_info now) ''quality'' = Some (PFloat 0.5)"
proof -
  have "PingMonitor_get_info env now = Inr (NetworkMonitor_get_fallback_info now)"
    by (simp add: PingMonitor_get_info_def ping_loop_raises NetworkMonitor_get_info_def
        NetworkMonitor_get_info_try_def and_then_def try_except_def)
  moreover have
    "map_of (NetworkMonitor_get_fallback_info now) ''speed_mbps'' = Some (PFloat 10.0)"
    "map_of (NetworkMonitor_get_fallback_info now) ''latency_ms'' = Some (PFloat 100.0)"
    "map_of (NetworkMonitor_get_fallback_info now) ''quality'' = Some (PFloat 0.5)"
    by (simp_all add: NetworkMonitor_get_fallback_info_def)
  moreover have "\<not> ping_host_catches (NameError ''re'')"
    by (simp add: ping_host_catches_def)
  ultimately show ?thesis
    using re_not_bound ping_host_NameError ping_host_raises ping_loop_raises by blast
qed

subsection \<open>The classes the factory builds\<close>

lemma repository_class_no_probe:
  "repository_class cls \<Longrightarrow> set probe_names \<inter> set (class_attrs cls) = {}"
  by (cases cls)
     (simp_all add: repository_class_def probe_names_def BatteryMonitor_attrs_def
        NetworkMonitor_attrs_def CarbonMonitor_attrs_def BaseMonitor_attrs_def)

lemma repository_class_hasattr:
  assumes "repository_class (klass m)"
  shows "list_all (\<lambda>name. \<not> hasattr m name) probe_names"
  using repository_class_no_probe [OF assms]
  by (auto simp: list_all_iff hasattr_def)

lemma status_default:
  assumes "repository_class (klass m)"
  shows "battery_status_of (Some m) = Inr 0.5"
    and "network_status_of (Some m) = Inr 0.5"
    and "carbon_status_of (Some m) = Inr 0.5"
  using repository_class_no_probe [OF assms]
  by (simp_all add: battery_status_of_def network_status_of_def carbon_status_of_def
      hasattr_def probe_names_def)

lemma create_battery_repository: "repository_class (create_battery_monitor env u s)"
  by (simp add: create_battery_monitor_def repository_class_def Let_def)

lemma create_network_repository: "repository_class (create_network_monitor env a b c)"
  by (simp add: create_network_monitor_def repository_class_def)

lemma create_carbon_repository:
  "create_carbon_monitor env k u z s = Inr cls \<Longrightarrow> repository_class cls"
  by (auto simp add: create_carbon_monitor_def repository_class_def split: if_splits)

lemma create_carbon_sim:
  "create_carbon_monitor env None True z False = Inr SimulatedCarbonMonitor"
  by (simp add: create_carbon_monitor_def truthy_def)

lemma initialize_monitors_classes:
  assumes "initialize_monitors cfg env = Inr classes"
  shows "\<exists>b n c. classes = [(''battery'', b), (''network'', n), (''carbon'', c)]
           \<and> repository_class b \<and> repository_class n \<and> repository_class c"
proof -
  define b where "b =
    (if use_real_battery cfg
     then if \<not> battery_is_available env (create_battery_monitor env True False)
          then create_battery_monitor env True False
          else create_battery_monitor env True False
     else create_battery_monitor env False False)"
  define n where "n =
    (if use_real_network cfg
     then create_network_monitor env True True False
     else create_network_monitor env False False False)"
  define cm where "cm =
    (if use_real_carbon cfg
     then try_except (create_carbon_monitor env (environ_api_key env) True (carbon_zone cfg) False)
            (\<lambda>e. create_carbon_monitor env None True ''IN'' False)
     else create_carbon_monitor env None True ''IN'' False)"
  have eq: "initialize_monitors cfg env =
      and_then cm (\<lambda>c. Inr [(''battery'', b), (''network'', n), (''carbon'', c)])"
    by (simp add: initialize_monitors_def Let_def b_def n_def cm_def)
  have rb: "repository_class b"
    by (simp add: b_def create_battery_repository)
  have rn: "repository_class n"
    by (simp add: n_def create_network_repository)
  from assms eq obtain c where c: "cm = Inr c"
    and cl: "classes = [(''battery'', b), (''network'', n), (''carbon'', c)]"
    by (cases cm) (auto simp: and_then_def)
  have rc: "repository_class c"
  proof (cases "use_real_carbon cfg")
    case False
    with c show ?thesis
      by (simp add: cm_def create_carbon_sim repository_class_def)
  next
    case True
    show ?thesis
    proof (cases "create_carbon_monitor env (environ_api_key env) True (carbon_zone cfg) False")
      case (Inl e)
      with c True show ?thesis
        by (simp add: cm_def try_except_def create_carbon_sim repository_class_def)
    next
      case (Inr c')
      with c True have "c' = c" by (simp add: cm_def try_except_def)
      with Inr show ?thesis by (auto dest: create_carbon_repository)
    qed
  qed
  show ?thesis using cl rb rn rc by blast
qed

text \<open>\<open>_initialize_monitors\<close> always returns its three monitors.\<close>

lemma initialize_monitors_returns: "\<exists>classes. initialize_monitors cfg env = Inr classes"
  by (auto simp: initialize_monitors_def Let_def and_then_def try_except_def create_carbon_sim
      split: sum.splits)

section \<open>Properties of the decision engine\<close>

lemma default_score:
  "calculate_sustainability_score
     [(''battery'', 0.5), (''network'', 0.5), (''carbon'', 0.5)] default_weights = 0.5"
  by (simp add: calculate_sustainability_score_def default_weights_def dict_get_def)

lemma default_confidence:
  "calculate_confidence 0.5
     \<lparr>SystemContext.battery = 0.5, network = 0.5, carbon = 0.5, platform = p, timestamp = t\<rparr>
   = Inr (sqrt (7/8))"
proof -
  have "sqrt (7/8) \<le> 1" by (subst real_sqrt_le_1_iff) simp
  moreover have "0 \<le> sqrt (7/8::real)" by simp
  ultimately show ?thesis
    by (simp add: calculate_confidence_def combined_confidence_def
        del: real_sqrt_le_1_iff real_sqrt_ge_0_iff)
qed

text \<open>The decision and the new state of a call whose probes and confidence succeed.\<close>

lemma make_decision_Inr:
  assumes b: "battery_status_of (map_of (monitors self) ''battery'') = Inr b"
    and n: "network_status_of (map_of (monitors self) ''network'') = Inr n"
    and c: "carbon_status_of (map_of (monitors self) ''carbon'') = Inr c"
    and s: "s = calculate_sustainability_score
                  [(''battery'', b), (''network'', n), (''carbon'', c)] (weights (config self))"
    and cf: "calculate_confidence s
               \<lparr>SystemContext.battery = b, network = n, carbon = c,
                platform = dict_get (platform_info self) ''system'' ''unknown'',
                timestamp = now\<rparr> = Inr cf"
    and d: "d = \<lparr>score = s, confidence = cf, battery = b, network = n, carbon = c,
                 timestamp = now,
                 recommended_mode = fst (determine_mode (config self) b n s),
                 explanation = snd (determine_mode (config self) b n s),
                 tradeoffs = analyze_tradeoffs b n c\<rparr>"
  shows "make_decision now self =
           Inr (d, self\<lparr>decision_history :=
                          save_to_history (config self) (decision_history self) d\<rparr>)"
  unfolding make_decision_def b n c
  using cf by (simp add: and_then_def Let_def s d split_beta)

text \<open>
  Claim C1. Let the monitors of an orchestrator be instances of the classes that
  \<open>_initialize_monitors\<close> builds through \<open>MonitorFactory\<close>, and let its weights and
  thresholds be the defaults (0.4, 0.3, 0.3; threshold 0.5; battery bounds 0.2 and
  0.8). Then no monitor has one of the seven probed attributes, and every call of
  \<open>make_decision\<close> returns a decision whose battery, network and carbon values are the
  default 0.5, whose score is exactly 0.5 and whose mode is \<open>DEFERRED\<close>.
\<close>

theorem factory_monitors_default_decision:
  assumes init: "initialize_monitors (config self) env = Inr classes"
    and mons: "map (\<lambda>(k, m). (k, klass m)) (monitors self) = classes"
    and cfg: "weights (config self) = default_weights" "threshold (config self) = 0.5"
      "hard_edge_battery (config self) = 0.2" "hard_cloud_battery (config self) = 0.8"
  shows "list_all (\<lambda>(k, m). list_all (\<lambda>name. \<not> hasattr m name) probe_names) (monitors self)
         \<and> (\<exists>d self'. make_decision now self = Inr (d, self')
               \<and> battery d = 0.5 \<and> network d = 0.5 \<and> carbon d = 0.5
               \<and> score d = 0.5 \<and> recommended_mode d = DEFERRED)"
proof -
  from initialize_monitors_classes [OF init] obtain b n c where
    cl: "classes = [(''battery'', b), (''network'', n), (''carbon'', c)]"
    and r: "repository_class b" "repository_class n" "repository_class c"
    by blast
  from mons cl obtain mb mn mc where
    ms: "monitors self = [(''battery'', mb), (''network'', mn), (''carbon'', mc)]"
    and k: "klass mb = b" "klass mn = n" "klass mc = c"
    by (auto simp: map_eq_Cons_conv)
  have none: "list_all (\<lambda>(k, m). list_all (\<lambda>name. \<not> hasattr m name) probe_names)
      (monitors self)"
    using r k by (simp add: ms repository_class_hasattr)
  have s: "battery_status_of (map_of (monitors self) ''battery'') = Inr 0.5"
    "network_status_of (map_of (monitors self) ''network'') = Inr 0.5"
    "carbon_status_of (map_of (monitors self) ''carbon'') = Inr 0.5"
    using r k by (simp_all add: ms status_default)
  have sc: "calculate_sustainability_score
              [(''battery'', 0.5), (''network'', 0.5), (''carbon'', 0.5)]
              (weights (config self)) = 0.5"
    by (simp only: cfg default_score)
  have m: "fst (determine_mode (config self) 0.5 0.5 0.5) = DEFERRED"
    by (simp add: determine_mode_def cfg)
  define d where "d =
    \<lparr>score = 0.5, confidence = sqrt (7/8), battery = 0.5, network = 0.5, carbon = 0.5,
     timestamp = now,
     recommended_mode = fst (determine_mode (config self) 0.5 0.5 0.5),
     explanation = snd (determine_mode (config self) 0.5 0.5 0.5),
     tradeoffs = analyze_tradeoffs 0.5 0.5 0.5\<rparr>"
  have md: "make_decision now self =
      Inr (d, self\<lparr>decision_history :=
                     save_to_history (config self) (decision_history self) d\<rparr>)"
    by (rule make_decision_Inr [OF s sc [symmetric] default_confidence d_def])
  have "battery d = 0.5" "network d = 0.5" "carbon d = 0.5" "score d = 0.5"
    "recommended_mode d = DEFERRED"
    using m by (simp_all add: d_def)
  with md none show ?thesis by blast
qed

theorem factory_monitors_default_decision_witness:
  "initialize_monitors default_config example_environment
     = Inr [(''battery'', UniversalBatteryMonitor), (''network'', PingMonitor),
            (''carbon'', SimulatedCarbonMonitor)]
   \<and> (\<exists>d self'.
         make_decision 0
           (example_orchestrator default_config
              [(''battery'', instance_of UniversalBatteryMonitor),
               (''network'', instance_of PingMonitor),
               (''carbon'', instance_of SimulatedCarbonMonitor)] [])
           = Inr (d, self')
         \<and> battery d = 0.5 \<and> network d = 0.5 \<and> carbon d = 0.5
         \<and> score d = 0.5 \<and> recommended_mode d = DEFERRED)"
proof -
  have i: "initialize_monitors default_config example_environment
     = Inr [(''battery'', UniversalBatteryMonitor), (''network'', PingMonitor),
            (''carbon'', SimulatedCarbonMonitor)]"
    by (simp add: initialize_monitors_def default_config_def example_environment_def
        create_battery_monitor_def create_network_monitor_def create_carbon_monitor_def
        battery_is_available_def platform_monitors_def SpeedTestMonitor_is_available_def
        truthy_def try_except_def and_then_def)
  show ?thesis
    using i factory_monitors_default_decision [of
        "example_orchestrator default_config
              [(''battery'', instance_of UniversalBatteryMonitor),
               (''network'', instance_of PingMonitor),
               (''carbon'', instance_of SimulatedCarbonMonitor)] []"
        example_environment
        "[(''battery'', UniversalBatteryMonitor), (''network'', PingMonitor),
            (''carbon'', SimulatedCarbonMonitor)]" 0]
    by (simp add: example_orchestrator_def instance_of_def default_config_def)
qed

text \<open>
  Claim C2, as the code has it. For battery, network and carbon readings between 0 and
  1 and any configuration, \<open>make_decision\<close> returns a decision with these values, and
  its mode and explanation follow the rules in their order, with strict comparisons,
  the first match winning: battery below \<open>hard_edge_battery\<close> gives \<open>CLOUD_ONLY\<close> with
  the explanation "Battery too low for edge processing" (with a capital B); else
  battery above \<open>hard_cloud_battery\<close> and network above 0.7 give \<open>EDGE_ONLY\<close>; else a
  score above the threshold gives \<open>HYBRID\<close>; else \<open>DEFERRED\<close>. In particular battery
  0.1 under the bound 0.2 gives \<open>CLOUD_ONLY\<close>, whatever the network, the carbon and
  the score.
\<close>

theorem decision_rules:
  assumes b: "battery_status_of (map_of (monitors self) ''battery'') = Inr b"
    and n: "network_status_of (map_of (monitors self) ''network'') = Inr n"
    and c: "carbon_status_of (map_of (monitors self) ''carbon'') = Inr c"
    and r: "0 \<le> b" "b \<le> 1" "0 \<le> n" "n \<le> 1" "0 \<le> c" "c \<le> 1"
  shows "\<exists>d self'. make_decision now self = Inr (d, self')
           \<and> battery d = b \<and> network d = n \<and> carbon d = c
           \<and> score d = calculate_sustainability_score
                           [(''battery'', b), (''network'', n), (''carbon'', c)]
                           (weights (config self))
           \<and> (recommended_mode d, explanation d) =
                 (if b < hard_edge_battery (config self)
                  then (CLOUD_ONLY, ''Battery too low for edge processing'')
                  else if b > hard_cloud_battery (config self) \<and> n > 0.7
                  then (EDGE_ONLY, ''High battery and good network for edge processing'')
                  else if score d > threshold (config self)
                  then (HYBRID, ''Good conditions for hybrid processing'')
                  else (DEFERRED, ''Poor conditions, defer processing''))
           \<and> (b = 0.1 \<and> hard_edge_battery (config self) = 0.2
                 \<longrightarrow> recommended_mode d = CLOUD_ONLY)"
proof -
  define s where "s = calculate_sustainability_score
      [(''battery'', b), (''network'', n), (''carbon'', c)] (weights (config self))"
  define ctx where "ctx = \<lparr>SystemContext.battery = b, network = n, carbon = c,
      platform = dict_get (platform_info self) ''system'' ''unknown'', timestamp = now\<rparr>"
  have "0 \<le> s" "s \<le> 1" using score_range by (simp_all add: s_def)
  then obtain cf where cf: "calculate_confidence s ctx = Inr cf"
    using calculate_confidence_range [of s ctx] r by (auto simp: ctx_def)
  define d where "d = \<lparr>score = s, confidence = cf, battery = b, network = n, carbon = c,
                 timestamp = now,
                 recommended_mode = fst (determine_mode (config self) b n s),
                 explanation = snd (determine_mode (config self) b n s),
                 tradeoffs = analyze_tradeoffs b n c\<rparr>"
  have md: "make_decision now self =
      Inr (d, self\<lparr>decision_history :=
                     save_to_history (config self) (decision_history self) d\<rparr>)"
    by (rule make_decision_Inr [OF b n c s_def cf [unfolded ctx_def] d_def])
  have f: "battery d = b" "network d = n" "carbon d = c" "score d = s"
    by (simp_all add: d_def)
  have m: "(recommended_mode d, explanation d) = determine_mode (config self) b n s"
    by (simp add: d_def)
  have rules: "(recommended_mode d, explanation d) =
                 (if b < hard_edge_battery (config self)
                  then (CLOUD_ONLY, ''Battery too low for edge processing'')
                  else if b > hard_cloud_battery (config self) \<and> n > 0.7
                  then (EDGE_ONLY, ''High battery and good network for edge processing'')
                  else if score d > threshold (config self)
                  then (HYBRID, ''Good conditions for hybrid processing'')
                  else (DEFERRED, ''Poor conditions, defer processing''))"
    unfolding m f by (simp add: determine_mode_def)
  have low: "b = 0.1 \<and> hard_edge_battery (config self) = 0.2
      \<longrightarrow> recommended_mode d = CLOUD_ONLY"
    by (simp add: d_def determine_mode_def)
  show ?thesis
    using md f(1,2,3) f(4) [unfolded s_def] rules low by blast
qed

theorem decision_rules_witness:
  "\<exists>d self'.
      make_decision 0
        (example_orchestrator default_config
           [(''battery'', test_double ''get_level'' 0.1),
            (''network'', test_double ''get_speed'' 0.95),
            (''carbon'', test_double ''get_carbon_intensity'' 0.05)] [])
        = Inr (d, self')
      \<and> battery d = 0.1 \<and> network d = 0.95 \<and> carbon d = 0.05
      \<and> recommended_mode d = CLOUD_ONLY
      \<and> explanation d = ''Battery too low for edge processing''"
proof -
  let ?self = "example_orchestrator default_config
           [(''battery'', test_double ''get_level'' 0.1),
            (''network'', test_double ''get_speed'' 0.95),
            (''carbon'', test_double ''get_carbon_intensity'' 0.05)] []"
  have b: "battery_status_of (map_of (monitors ?self) ''battery'') = Inr 0.1"
    by (simp add: example_orchestrator_def test_double_def battery_status_of_def hasattr_def)
  have n: "network_status_of (map_of (monitors ?self) ''network'') = Inr 0.95"
    by (simp add: example_orchestrator_def test_double_def network_status_of_def hasattr_def)
  have c: "carbon_status_of (map_of (monitors ?self) ''carbon'') = Inr 0.05"
    by (simp add: example_orchestrator_def test_double_def carbon_status_of_def hasattr_def)
  have h: "hard_edge_battery (config ?self) = 0.2"
    by (simp add: example_orchestrator_def default_config_def)
  from decision_rules [OF b n c, of 0] obtain d self' where
    md: "make_decision 0 ?self = Inr (d, self')"
    and f: "battery d = 0.1" "network d = 0.95" "carbon d = 0.05"
    and rules: "(recommended_mode d, explanation d) =
                 (if 0.1 < hard_edge_battery (config ?self)
                  then (CLOUD_ONLY, ''Battery too low for edge processing'')
                  else if 0.1 > hard_cloud_battery (config ?self) \<and> (0.95::real) > 0.7
                  then (EDGE_ONLY, ''High battery and good network for edge processing'')
                  else if score d > threshold (config ?self)
                  then (HYBRID, ''Good conditions for hybrid processing'')
                  else (DEFERRED, ''Poor conditions, defer processing''))"
    by auto
  from rules h have "recommended_mode d = CLOUD_ONLY"
    "explanation d = ''Battery too low for edge processing''"
    by simp_all
  with md f show ?thesis by blast
qed

text \<open>
  The explanation of the first rule is not the string of the claim, which starts with
  a small b.
\<close>

theorem decision_rules_counterexample:
  "determine_mode default_config (1/10) (95/100) (61/100)
     = (CLOUD_ONLY, ''Battery too low for edge processing'')
   \<and> snd (determine_mode default_config (1/10) (95/100) (61/100))
     \<noteq> ''battery too low for edge processing''"
  by (simp add: determine_mode_def default_config_def)

subsection \<open>The decision history\<close>

lemma slice_from_neg:
  "0 < n \<Longrightarrow> slice_from xs (- int n) = drop (length xs - n) xs"
  by (simp add: slice_from_def Let_def nat_diff_distrib' max_def)

lemma save_to_history_drop:
  assumes "0 < n" "decision_history_size cfg = int n"
  shows "save_to_history cfg h d = drop (length (h @ [d]) - n) (h @ [d])"
  using assms by (simp add: save_to_history_def Let_def slice_from_neg)

lemma drop_drop_append:
  "drop (length (drop (length xs - n) xs @ ys) - n) (drop (length xs - n) xs @ ys)
     = drop (length (xs @ ys) - n) (xs @ (ys::'a list))"
proof (cases "length xs \<le> n")
  case True
  then show ?thesis by simp
next
  case False
  then have "length (drop (length xs - n) xs) = n" by simp
  then have "drop (length (drop (length xs - n) xs @ ys) - n) (drop (length xs - n) xs @ ys)
      = drop (length ys) (drop (length xs - n) xs @ ys)"
    by simp
  also have "\<dots> = drop (length xs + length ys - n) xs @ drop (length ys - n) ys"
    using False by (simp add: add.commute)
  also have "\<dots> = drop (length (xs @ ys) - n) (xs @ ys)"
    using False by simp
  finally show ?thesis .
qed

lemma make_decision_history:
  assumes "make_decision now self = Inr (d, self')"
  shows "decision_history self' = save_to_history (config self) (decision_history self) d
         \<and> config self' = config self"
  using assms unfolding make_decision_def
  by (auto simp: and_then_def Let_def split_beta split: sum.splits)

lemma make_decisions_history:
  assumes "0 < n"
  shows "decision_history_size (config self) = int n \<Longrightarrow>
         make_decisions steps self = Inr (ds, self') \<Longrightarrow>
         steps \<noteq> [] \<Longrightarrow>
         decision_history self'
           = drop (length (decision_history self @ ds) - n) (decision_history self @ ds)
         \<and> length ds = length steps \<and> config self' = config self"
proof (induction steps arbitrary: self ds)
  case Nil
  then show ?case by simp
next
  case (Cons step steps)
  obtain now ms where step: "step = (now, ms)" by (cases step)
  from Cons.prems(2) obtain d self1 ds1 where
    d: "make_decision now (self\<lparr>monitors := ms\<rparr>) = Inr (d, self1)"
    and rest: "make_decisions steps self1 = Inr (ds1, self')"
    and ds: "ds = d # ds1"
    by (auto simp: step and_then_def split: sum.splits)
  from make_decision_history [OF d] have
    h1: "decision_history self1 = save_to_history (config self) (decision_history self) d"
    and c1: "config self1 = config self"
    by simp_all
  have h1': "decision_history self1
      = drop (length (decision_history self @ [d]) - n) (decision_history self @ [d])"
    unfolding h1 by (rule save_to_history_drop [OF assms Cons.prems(1)])
  have n1: "decision_history_size (config self1) = int n"
    using c1 Cons.prems(1) by simp
  show ?case
  proof (cases steps)
    case Nil
    with rest have "ds1 = []" "self' = self1" by simp_all
    then show ?thesis using h1' c1 by (simp add: ds Nil)
  next
    case (Cons step' steps')
    then have "steps \<noteq> []" by simp
    from Cons.IH [OF n1 rest this] have
      "decision_history self'
         = drop (length (decision_history self1 @ ds1) - n) (decision_history self1 @ ds1)"
      and l: "length ds1 = length steps" and c: "config self' = config self1"
      by simp_all
    then have "decision_history self'
         = drop (length ((decision_history self @ [d]) @ ds1) - n)
             ((decision_history self @ [d]) @ ds1)"
      unfolding h1' by (simp only: drop_drop_append)
    then show ?thesis using l c c1 by (simp add: ds)
  qed
qed

text \<open>
  Claim C6. Let the capacity N = \<open>decision_history_size\<close> be at least 1. After N + k
  successful calls of \<open>make_decision\<close>, whose decisions are \<open>ds\<close> in the order they
  were made, the history is \<open>ds\<close> without its first k elements, whatever it held
  before: the last N decisions in their order, the earlier ones evicted.
\<close>

theorem history_keeps_last:
  assumes "1 \<le> decision_history_size (config self)"
    and "make_decisions steps self = Inr (ds, self')"
    and "length steps = nat (decision_history_size (config self)) + k"
  shows "decision_history self' = drop k ds
         \<and> length (decision_history self') = nat (decision_history_size (config self))
         \<and> length ds = nat (decision_history_size (config self)) + k"
proof -
  define n where "n = nat (decision_history_size (config self))"
  have n: "0 < n" "decision_history_size (config self) = int n"
    using assms(1) by (simp_all add: n_def)
  have "steps \<noteq> []" using assms(3) n(1) by (auto simp: n_def)
  from make_decisions_history [OF n(1) n(2) assms(2) this]
  have h: "decision_history self'
           = drop (length (decision_history self @ ds) - n) (decision_history self @ ds)"
    and l: "length ds = length steps"
    by simp_all
  have "length ds = n + k" using l assms(3) by (simp add: n_def)
  then show ?thesis using h by (simp add: n_def)
qed

text \<open>A call without monitors, under the default weights.\<close>

lemma no_monitor_decision:
  assumes "monitors self = []" "weights (config self) = default_weights"
  shows "\<exists>d. make_decision now self =
          Inr (d, self\<lparr>decision_history :=
                         save_to_history (config self) (decision_history self) d\<rparr>)
          \<and> timestamp d = now"
proof -
  have s: "battery_status_of (map_of (monitors self) ''battery'') = Inr 0.5"
    "network_status_of (map_of (monitors self) ''network'') = Inr 0.5"
    "carbon_status_of (map_of (monitors self) ''carbon'') = Inr 0.5"
    by (simp_all add: assms battery_status_of_def network_status_of_def carbon_status_of_def)
  have sc: "calculate_sustainability_score
              [(''battery'', 0.5), (''network'', 0.5), (''carbon'', 0.5)]
              (weights (config self)) = 0.5"
    by (simp only: assms default_score)
  define d where "d =
    \<lparr>score = 0.5, confidence = sqrt (7/8), battery = 0.5, network = 0.5, carbon = 0.5,
     timestamp = now,
     recommended_mode = fst (determine_mode (config self) 0.5 0.5 0.5),
     explanation = snd (determine_mode (config self) 0.5 0.5 0.5),
     tradeoffs = analyze_tradeoffs 0.5 0.5 0.5\<rparr>"
  have "make_decision now self =
      Inr (d, self\<lparr>decision_history :=
                     save_to_history (config self) (decision_history self) d\<rparr>)"
    by (rule make_decision_Inr [OF s sc [symmetric] default_confidence d_def])
  moreover have "timestamp d = now" by (simp add: d_def)
  ultimately show ?thesis by blast
qed

text \<open>Capacity 2 and three calls at the times 1, 2 and 3: the history keeps 2 and 3.\<close>

theorem history_keeps_last_witness:
  "case make_decisions [(1, []), (2, []), (3, [])]
          (example_orchestrator (default_config\<lparr>decision_history_size := 2\<rparr>) [] []) of
     Inl e \<Rightarrow> False
   | Inr (ds, self') \<Rightarrow>
       decision_history self' = drop 1 ds
       \<and> map timestamp ds = [1, 2, 3]
       \<and> map timestamp (decision_history self') = [2, 3]"
proof -
  let ?cfg = "default_config\<lparr>decision_history_size := 2\<rparr>"
  let ?self = "example_orchestrator ?cfg [] []"
  have w: "weights ?cfg = default_weights" by (simp add: default_config_def)
  obtain d1 where d1: "make_decision 1 (?self\<lparr>monitors := []\<rparr>) =
      Inr (d1, ?self\<lparr>monitors := [], decision_history := [d1]\<rparr>)" and t1: "timestamp d1 = 1"
    using no_monitor_decision [of "?self\<lparr>monitors := []\<rparr>" 1] w
    by (auto simp: example_orchestrator_def save_to_history_def)
  let ?s1 = "?self\<lparr>monitors := [], decision_history := [d1]\<rparr>"
  obtain d2 where d2: "make_decision 2 (?s1\<lparr>monitors := []\<rparr>) =
      Inr (d2, ?self\<lparr>monitors := [], decision_history := [d1, d2]\<rparr>)" and t2: "timestamp d2 = 2"
    using no_monitor_decision [of "?s1\<lparr>monitors := []\<rparr>" 2] w
    by (auto simp: example_orchestrator_def save_to_history_def)
  let ?s2 = "?self\<lparr>monitors := [], decision_history := [d1, d2]\<rparr>"
  obtain d3 where d3: "make_decision 3 (?s2\<lparr>monitors := []\<rparr>) =
      Inr (d3, ?self\<lparr>monitors := [], decision_history := [d2, d3]\<rparr>)" and t3: "timestamp d3 = 3"
    using no_monitor_decision [of "?s2\<lparr>monitors := []\<rparr>" 3] w
    by (auto simp: example_orchestrator_def save_to_history_def slice_from_def
        default_config_def)
  have run: "make_decisions [(1, []), (2, []), (3, [])] ?self =
      Inr ([d1, d2, d3], ?self\<lparr>monitors := [], decision_history := [d2, d3]\<rparr>)"
    using d1 d2 d3 by (simp add: and_then_def)
  have "decision_history (?self\<lparr>monitors := [], decision_history := [d2, d3]\<rparr>)
      = drop 1 [d1, d2, d3]"
    using history_keeps_last [OF _ run, of 1]
    by (simp add: example_orchestrator_def default_config_def)
  then show ?thesis
    using run t1 t2 t3 by simp
qed

subsection \<open>Statistics\<close>

lemma fold_min_Min: "fold min xs (x::real) = Min (set (x # xs))"
  by (simp only: Min.set_eq_fold)

lemma fold_max_Max: "fold max xs (x::real) = Max (set (x # xs))"
  by (simp only: Max.set_eq_fold)

text \<open>
  Claim C7, as the code has it. For an empty history \<open>get_statistics\<close> returns the
  empty dictionary. For a history that is not empty it returns exactly six entries:
  the number of decisions, the mean of the scores, the mean of the confidences, the
  least and the greatest score, and the number of decisions of each execution mode,
  with all four modes present and 0 for a mode that did not occur. It reports no
  least or greatest confidence and nothing about battery, network or carbon.
\<close>

theorem get_statistics_contents:
  "(decision_history self = [] \<longrightarrow> get_statistics self = [])
   \<and> (decision_history self \<noteq> [] \<longrightarrow>
        get_statistics self =
          [(''total_decisions'', Count (length (decision_history self))),
           (''average_score'',
              Number (sum_list (map score (decision_history self))
                        / real (length (decision_history self)))),
           (''average_confidence'',
              Number (sum_list (map confidence (decision_history self))
                        / real (length (decision_history self)))),
           (''min_score'', Number (Min (set (map score (decision_history self))))),
           (''max_score'', Number (Max (set (map score (decision_history self))))),
           (''mode_distribution'',
              Distribution
                [(''edge_only'',
                    length (filter (\<lambda>d. recommended_mode d = EDGE_ONLY)
                              (decision_history self))),
                 (''cloud_only'',
                    length (filter (\<lambda>d. recommended_mode d = CLOUD_ONLY)
                              (decision_history self))),
                 (''hybrid'',
                    length (filter (\<lambda>d. recommended_mode d = HYBRID)
                              (decision_history self))),
                 (''deferred'',
                    length (filter (\<lambda>d. recommended_mode d = DEFERRED)
                              (decision_history self)))])])"
proof (cases "decision_history self")
  case Nil
  then show ?thesis by (simp add: get_statistics_def)
next
  case (Cons d ds)
  have "fold min (map score ds) (score d) = Min (set (map score (d # ds)))"
    "fold max (map score ds) (score d) = Max (set (map score (d # ds)))"
    by (simp_all only: fold_min_Min fold_max_Max list.map)
  then show ?thesis
    by (simp add: get_statistics_def Cons ExecutionMode_members_def)
qed

theorem get_statistics_contents_witness:
  "get_statistics (example_orchestrator default_config [] []) = []
   \<and> get_statistics (example_orchestrator default_config []
        [example_decision 0.2 0.4, example_decision 0.9 0.6])
      = [(''total_decisions'', Count 2),
         (''average_score'', Number 0.5),
         (''average_confidence'', Number 0.5),
         (''min_score'', Number 0.5),
         (''max_score'', Number 0.5),
         (''mode_distribution'',
            Distribution
              [(''edge_only'', 0), (''cloud_only'', 0), (''hybrid'', 0), (''deferred'', 2)])]"
  using get_statistics_contents [of "example_orchestrator default_config [] []"]
    get_statistics_contents [of "example_orchestrator default_config []
        [example_decision 0.2 0.4, example_decision 0.9 0.6]"]
  by (simp add: example_orchestrator_def example_decision_def)

text \<open>
  The claim as stated fails: an empty history gives no mode key at all; the result has
  six keys; two histories that differ in battery, network and carbon give the same
  statistics, and so do two histories whose confidences have the same mean but
  different extremes.
\<close>

theorem get_statistics_counterexample:
  "get_statistics (example_orchestrator default_config [] []) = []
   \<and> map_of (get_statistics (example_orchestrator default_config [] []))
       ''mode_distribution'' = None
   \<and> map fst (get_statistics
                (example_orchestrator default_config [] [example_decision 0.2 0.4]))
       = [''total_decisions'', ''average_score'', ''average_confidence'', ''min_score'',
          ''max_score'', ''mode_distribution'']
   \<and> get_statistics (example_orchestrator default_config [] [example_decision 0.2 0.4])
       = get_statistics (example_orchestrator default_config [] [example_decision 0.9 0.4])
   \<and> get_statistics (example_orchestrator default_config []
          [example_decision 0.5 0.2, example_decision 0.5 0.8])
       = get_statistics (example_orchestrator default_config []
          [example_decision 0.5 0.4, example_decision 0.5 0.6])"
  by (simp add: get_statistics_def example_orchestrator_def example_decision_def
      ExecutionMode_members_def)

end
